theory Spec2Isabelle
  imports Main
begin

section \<open>JavaScript values shared by the widgets\<close>

text \<open>
  The widgets are TypeScript classes. An index such as \<open>activeIdx\<close> is a JavaScript
  number: the code only ever produces integers, and \<open>NaN\<close> when it takes a
  remainder by zero. Comparisons with \<open>NaN\<close> are false, arithmetic on \<open>NaN\<close>
  gives \<open>NaN\<close>.
\<close>

datatype jsnum = Num int | NaN

fun js_add :: "jsnum \<Rightarrow> int \<Rightarrow> jsnum" where
  "js_add (Num a) b = Num (a + b)"
| "js_add NaN b = NaN"

text \<open>\<open>a % n\<close>: the sign follows the dividend; a zero divisor gives \<open>NaN\<close>.\<close>

fun js_rem :: "jsnum \<Rightarrow> int \<Rightarrow> jsnum" where
  "js_rem (Num a) n = (if n = 0 then NaN else Num (sgn a * (\<bar>a\<bar> mod \<bar>n\<bar>)))"
| "js_rem NaN n = NaN"

fun js_less :: "jsnum \<Rightarrow> jsnum \<Rightarrow> bool" where
  "js_less (Num a) (Num b) = (a < b)"
| "js_less _ _ = False"

datatype js_error = TypeError

section \<open>NgbTypeaheadWindow (typeahead-window.ts)\<close>

text \<open>
  The fields of the component. \<open>results\<close> is the list the owner assigns (a window
  whose owner has assigned nothing yet is given the empty list), \<open>term_tw\<close> is the
  field \<open>term\<close>, \<open>formatter\<close> and \<open>resultTemplate\<close> are references
  (\<open>None\<close> for the default \<open>toString\<close>, resp. no template), \<open>selectEvent\<close>
  records what the emitter has emitted, and \<open>scrollTop\<close> is the value last assigned
  to the host element's \<open>scrollTop\<close>.
\<close>

record 'r typeahead_window =
  activeIdx :: jsnum
  focusFirst :: bool
  results :: "'r list"
  term_tw :: string
  formatter :: "nat option"
  resultTemplate :: "nat option"
  selectEvent :: "'r option list"
  scrollTop :: int

text \<open>The field initialisers of the class: \<open>activeIdx = 0\<close>, \<open>focusFirst = true\<close>.\<close>

definition NgbTypeaheadWindow_new :: "'r typeahead_window" where
  "NgbTypeaheadWindow_new =
     \<lparr>activeIdx = Num 0, focusFirst = True, results = [], term_tw = [],
      formatter = None, resultTemplate = None, selectEvent = [], scrollTop = 0\<rparr>"

text \<open>
  What \<open>updateView\<close> reads from the DOM at the moment of the call: the buttons that
  are direct children of the host element, each with its \<open>offsetTop\<close>,
  \<open>offsetHeight\<close> and the \<open>isVisible\<close> answer of \<open>isFullyVisibleVertically\<close>
  (bounding-rectangle geometry), and the host's \<open>offsetHeight\<close>.
\<close>

record button_geom =
  offsetTop :: int
  offsetHeight :: int
  isVisible :: bool

record layout =
  directChildren :: "button_geom list"
  hostOffsetHeight :: int

text \<open>\<open>results[activeIdx]\<close>: \<open>undefined\<close> outside the list and at \<open>NaN\<close>.\<close>

definition getActive :: "'r typeahead_window \<Rightarrow> 'r option" where
  "getActive w =
     (case activeIdx w of
        NaN \<Rightarrow> None
      | Num i \<Rightarrow> if 0 \<le> i \<and> i < int (length (results w)) then Some (results w ! nat i) else None)"

definition markActive :: "jsnum \<Rightarrow> 'r typeahead_window \<Rightarrow> 'r typeahead_window" where
  "markActive idx w = w\<lparr>activeIdx := idx\<rparr>"

text \<open>
  \<open>updateView\<close> returns early for an index below zero or beyond the buttons. At
  \<open>NaN\<close> both comparisons are false, \<open>directChildren[NaN]\<close> is \<open>undefined\<close>
  and \<open>isFullyVisibleVertically\<close> raises a TypeError on it.
\<close>

definition updateView :: "layout \<Rightarrow> bool \<Rightarrow> 'r typeahead_window \<Rightarrow> js_error + 'r typeahead_window" where
  "updateView lay navUpwards w =
     (case activeIdx w of
        NaN \<Rightarrow> Inl TypeError
      | Num i \<Rightarrow>
          if i < 0 \<or> i \<ge> int (length (directChildren lay)) then Inr w
          else
            (let elem = directChildren lay ! nat i in
             if \<not> isVisible elem then
               (if navUpwards then Inr (w\<lparr>scrollTop := offsetTop elem\<rparr>)
                else Inr (w\<lparr>scrollTop := offsetTop elem + offsetHeight elem - hostOffsetHeight lay\<rparr>))
             else Inr w))"

definition next_tw :: "layout \<Rightarrow> 'r typeahead_window \<Rightarrow> js_error + 'r typeahead_window" where
  "next_tw lay w =
     (let prevIndex = activeIdx w;
          len = int (length (results w));
          w' = (if activeIdx w = Num (len - 1)
                then w\<lparr>activeIdx := (if focusFirst w then js_rem (js_add (activeIdx w) 1) len else Num (- 1))\<rparr>
                else w\<lparr>activeIdx := js_add (activeIdx w) 1\<rparr>)
      in updateView lay (js_less (activeIdx w') prevIndex) w')"

definition prev_tw :: "layout \<Rightarrow> 'r typeahead_window \<Rightarrow> js_error + 'r typeahead_window" where
  "prev_tw lay w =
     (let prevIndex = activeIdx w;
          len = int (length (results w));
          w' = (if js_less (activeIdx w) (Num 0) then w\<lparr>activeIdx := Num (len - 1)\<rparr>
                else if activeIdx w = Num 0
                then w\<lparr>activeIdx := (if focusFirst w then Num (len - 1) else Num (- 1))\<rparr>
                else w\<lparr>activeIdx := js_add (activeIdx w) (- 1)\<rparr>)
      in updateView lay (js_less (activeIdx w') prevIndex) w')"

definition select_tw :: "'r option \<Rightarrow> 'r typeahead_window \<Rightarrow> 'r typeahead_window" where
  "select_tw item w = w\<lparr>selectEvent := selectEvent w @ [item]\<rparr>"

definition ngOnInit_tw :: "'r typeahead_window \<Rightarrow> 'r typeahead_window" where
  "ngOnInit_tw w = w\<lparr>activeIdx := (if focusFirst w then Num 0 else Num (- 1))\<rparr>"

text \<open>A sequence of \<open>next()\<close> and \<open>prev()\<close> calls, each with the DOM it finds; an
  exception ends the sequence.\<close>

datatype nav = Next | Prev

fun nav_tw :: "nav \<Rightarrow> layout \<Rightarrow> 'r typeahead_window \<Rightarrow> js_error + 'r typeahead_window" where
  "nav_tw Next lay w = next_tw lay w"
| "nav_tw Prev lay w = prev_tw lay w"

fun run_tw :: "'r typeahead_window \<Rightarrow> (nav \<times> layout) list \<Rightarrow> js_error + 'r typeahead_window" where
  "run_tw w [] = Inr w"
| "run_tw w ((n, lay) # ops) =
     (case nav_tw n lay w of Inl e \<Rightarrow> Inl e | Inr w' \<Rightarrow> run_tw w' ops)"

text \<open>The range the index of a window with \<open>n\<close> results stays in.\<close>

definition idx_ok :: "'r typeahead_window \<Rightarrow> bool" where
  "idx_ok w =
     (case activeIdx w of
        NaN \<Rightarrow> False
      | Num i \<Rightarrow> (i = - 1 \<and> \<not> focusFirst w) \<or> (0 \<le> i \<and> i < int (length (results w))))"

section \<open>The page a widget lives in\<close>

text \<open>
  All three directives register a capturing \<open>scroll\<close> listener on \<open>document\<close>
  and create objects whose identity matters (component references, listener closures).
  \<open>scroll_listeners\<close> is the document's list of registered capturing scroll
  listeners, \<open>fresh\<close> the next unused object identity. Each widget record extends
  this one with its own fields.
\<close>

record page =
  scroll_listeners :: "nat list"
  fresh :: nat

definition alloc :: "'a page_scheme \<Rightarrow> nat \<times> 'a page_scheme" where
  "alloc p = (fresh p, p\<lparr>fresh := Suc (fresh p)\<rparr>)"

text \<open>\<open>document.addEventListener('scroll', l, true)\<close>: a listener already registered
  is not registered twice.\<close>

definition addEventListener :: "nat \<Rightarrow> 'a page_scheme \<Rightarrow> 'a page_scheme" where
  "addEventListener l p =
     (if l \<in> set (scroll_listeners p) then p
      else p\<lparr>scroll_listeners := scroll_listeners p @ [l]\<rparr>)"

text \<open>\<open>document.removeEventListener('scroll', l, true)\<close>: \<open>l\<close> is the field
  \<open>_scrollListener\<close>, \<open>undefined\<close> (here \<open>None\<close>) until the first open; removing
  \<open>undefined\<close> or a listener that is not registered does nothing.\<close>

definition removeEventListener :: "nat option \<Rightarrow> 'a page_scheme \<Rightarrow> 'a page_scheme" where
  "removeEventListener l p =
     (case l of
        None \<Rightarrow> p
      | Some n \<Rightarrow> p\<lparr>scroll_listeners := removeAll n (scroll_listeners p)\<rparr>)"

text \<open>The target of a scroll event: the document itself or an element of it.\<close>

datatype target = Document | Element nat

text \<open>A component reference: its host element (\<open>location.nativeElement\<close>) and the
  component instance.\<close>

record 'i component_ref =
  ref_location :: nat
  ref_instance :: 'i

text \<open>A callback registered through \<open>registerOnChange\<close> or \<open>registerOnTouched\<close>;
  \<open>Noop\<close> is the empty arrow function the field starts with.\<close>

datatype callback = Noop | Registered nat

section \<open>NgbPopover (popover.ts)\<close>

datatype placement = Top | Bottom | Left | Right

datatype content = Text string | Template nat

text \<open>The component \<open>NgbPopoverWindow\<close>: \<open>placement\<close> (initially \<open>'top'\<close>) and \<open>title\<close>.\<close>

record popover_window =
  pw_placement :: placement
  pw_title :: "string option"

definition NgbPopoverWindow_new :: popover_window where
  "NgbPopoverWindow_new = \<lparr>pw_placement = Top, pw_title = None\<rparr>"

text \<open>
  \<open>listenToTriggers\<close> (../util/triggers) is not among the sources. What it registers
  on the host element for a trigger string is a parameter of the model: a list of event
  names, each with the bound method (\<open>open\<close>, \<open>close\<close> or \<open>toggle\<close>) it hands
  the event to.
\<close>

datatype trigger_fn = OpenFn | CloseFn | ToggleFn

type_synonym listenToTriggers = "string \<Rightarrow> (string \<times> trigger_fn) list"

text \<open>Calls the directive makes to collaborators that are not among the sources
  (\<open>PopupService\<close>, \<open>positionElements\<close>), in the order made.\<close>

datatype po_call =
    Po_popupService_open "content option" bool
  | Po_popupService_close
  | Po_positionElements nat nat placement bool

text \<open>
  The fields of the directive: the four inputs, \<open>_elementRef\<close>, \<open>_windowRef\<close>
  (\<open>None\<close> for \<open>undefined\<close> and \<open>null\<close>: the code only tests it for truthiness),
  the listeners \<open>listenToTriggers\<close> registered, \<open>_ignoreUpdatePosition\<close> and
  \<open>_scrollListener\<close>.
\<close>

record popover = page +
  ngbPopover :: "content option"
  po_title :: "string option"
  po_placement :: placement
  po_triggers :: string
  po_elementRef :: nat
  po_windowRef :: "popover_window component_ref option"
  po_listeners :: "(string \<times> trigger_fn) list"
  po_ignoreUpdatePosition :: bool
  po_scrollListener :: "nat option"
  po_calls :: "po_call list"

text \<open>The constructor: \<open>placement\<close> and \<open>triggers\<close> come from the injected
  \<open>NgbPopoverConfig\<close>; \<open>el\<close> is the host element.\<close>

definition NgbPopover_new :: "placement \<Rightarrow> string \<Rightarrow> nat \<Rightarrow> popover" where
  "NgbPopover_new config_placement config_triggers el =
     \<lparr>scroll_listeners = [], fresh = 0,
      ngbPopover = None, po_title = None, po_placement = config_placement,
      po_triggers = config_triggers, po_elementRef = el, po_windowRef = None,
      po_listeners = [], po_ignoreUpdatePosition = False, po_scrollListener = None,
      po_calls = []\<rparr>"

text \<open>The body of the arrow function stored in \<open>_scrollListener\<close>.\<close>

definition po_scrollListener_body :: "target \<Rightarrow> popover \<Rightarrow> popover" where
  "po_scrollListener_body tgt s =
     (if tgt = Document then s\<lparr>po_ignoreUpdatePosition := True\<rparr> else s)"

text \<open>\<open>open()\<close>. \<open>PopupService.open\<close> answers the reference of the window component it
  has created (the statements that follow dereference it): a new reference whose
  instance is a new \<open>NgbPopoverWindow\<close>.\<close>

definition NgbPopover_open :: "popover \<Rightarrow> popover" where
  "NgbPopover_open s =
     (if po_windowRef s = None then
        (let (w, s1) = alloc (s\<lparr>po_calls := po_calls s @ [Po_popupService_open (ngbPopover s) True]\<rparr>);
             s2 = s1\<lparr>po_windowRef := Some \<lparr>ref_location = w,
                     ref_instance = NgbPopoverWindow_new\<lparr>pw_placement := po_placement s1,
                                                          pw_title := po_title s1\<rparr>\<rparr>\<rparr>;
             (l, s3) = alloc s2;
             s4 = s3\<lparr>po_scrollListener := Some l\<rparr>
         in addEventListener l s4)
      else s)"

definition NgbPopover_close :: "popover \<Rightarrow> popover" where
  "NgbPopover_close s =
     (let s1 = removeEventListener (po_scrollListener s) s;
          s2 = s1\<lparr>po_calls := po_calls s1 @ [Po_popupService_close]\<rparr>
      in s2\<lparr>po_windowRef := None\<rparr>)"

definition NgbPopover_toggle :: "popover \<Rightarrow> popover" where
  "NgbPopover_toggle s =
     (if po_windowRef s \<noteq> None then NgbPopover_close s else NgbPopover_open s)"

definition NgbPopover_ngOnInit :: "listenToTriggers \<Rightarrow> popover \<Rightarrow> popover" where
  "NgbPopover_ngOnInit lt s = s\<lparr>po_listeners := lt (po_triggers s)\<rparr>"

definition NgbPopover_ngAfterViewChecked :: "popover \<Rightarrow> popover" where
  "NgbPopover_ngAfterViewChecked s =
     (let s1 = (case po_windowRef s of
                  Some r \<Rightarrow>
                    if \<not> po_ignoreUpdatePosition s
                    then s\<lparr>po_calls := po_calls s @
                           [Po_positionElements (po_elementRef s) (ref_location r) (po_placement s) True]\<rparr>
                    else s
                | None \<Rightarrow> s)
      in s1\<lparr>po_ignoreUpdatePosition := False\<rparr>)"

text \<open>What reaches the directive from outside: input bindings, the lifecycle hooks,
  the three public methods, a DOM event on the host element (handed to the trigger
  listeners registered for its name), a scroll event caught by the document (handed to
  every registered scroll listener).\<close>

fun po_trigger :: "trigger_fn \<Rightarrow> popover \<Rightarrow> popover" where
  "po_trigger OpenFn s = NgbPopover_open s"
| "po_trigger CloseFn s = NgbPopover_close s"
| "po_trigger ToggleFn s = NgbPopover_toggle s"

definition po_host_event :: "string \<Rightarrow> popover \<Rightarrow> popover" where
  "po_host_event name s =
     fold (\<lambda>(n, f) t. if n = name then po_trigger f t else t) (po_listeners s) s"

definition po_scroll :: "target \<Rightarrow> popover \<Rightarrow> popover" where
  "po_scroll tgt s = fold (\<lambda>l t. po_scrollListener_body tgt t) (scroll_listeners s) s"

datatype po_event =
    Po_set_ngbPopover "content option"
  | Po_set_title "string option"
  | Po_set_placement placement
  | Po_set_triggers string
  | Po_ngOnInit
  | Po_open
  | Po_close
  | Po_toggle
  | Po_host string
  | Po_scroll_event target
  | Po_ngAfterViewChecked

fun po_step :: "listenToTriggers \<Rightarrow> popover \<Rightarrow> po_event \<Rightarrow> popover" where
  "po_step lt s (Po_set_ngbPopover c) = s\<lparr>ngbPopover := c\<rparr>"
| "po_step lt s (Po_set_title t) = s\<lparr>po_title := t\<rparr>"
| "po_step lt s (Po_set_placement p) = s\<lparr>po_placement := p\<rparr>"
| "po_step lt s (Po_set_triggers t) = s\<lparr>po_triggers := t\<rparr>"
| "po_step lt s Po_ngOnInit = NgbPopover_ngOnInit lt s"
| "po_step lt s Po_open = NgbPopover_open s"
| "po_step lt s Po_close = NgbPopover_close s"
| "po_step lt s Po_toggle = NgbPopover_toggle s"
| "po_step lt s (Po_host name) = po_host_event name s"
| "po_step lt s (Po_scroll_event tgt) = po_scroll tgt s"
| "po_step lt s Po_ngAfterViewChecked = NgbPopover_ngAfterViewChecked s"

definition po_run :: "listenToTriggers \<Rightarrow> popover \<Rightarrow> po_event list \<Rightarrow> popover" where
  "po_run lt s evs = foldl (po_step lt) s evs"

text \<open>While a panel is open exactly its scroll listener is registered; while none
  is open, none is.\<close>

definition po_inv :: "popover \<Rightarrow> bool" where
  "po_inv s =
     (case po_windowRef s of
        None \<Rightarrow> scroll_listeners s = []
      | Some r \<Rightarrow> (case po_scrollListener s of
                     None \<Rightarrow> False
                   | Some l \<Rightarrow> scroll_listeners s = [l]))"

section \<open>NgbInputDatepicker (datepicker-input.ts)\<close>

text \<open>\<open>NgbDate\<close> and \<open>NgbDateStruct\<close>: year, month, day.\<close>

record date =
  year :: int
  month :: int
  day :: int

text \<open>
  \<open>NgbDateParserFormatter\<close> and \<open>NgbDatepickerService\<close> are injected and not among
  the sources: \<open>parse\<close>, \<open>format\<close> and \<open>toValidDate\<close> are parameters of the
  model. A date that may be \<open>null\<close> is a \<open>date option\<close>.
\<close>

record dp_services =
  pf_parse :: "string \<Rightarrow> date option"
  pf_format :: "date option \<Rightarrow> string"
  toValidDate :: "date option \<Rightarrow> date option \<Rightarrow> date option"

text \<open>The value of an input of the directive, read by name in
  \<open>_applyDatepickerInputs\<close> (\<open>this[optionName]\<close>); an input never bound is
  \<open>undefined\<close>, here \<open>None\<close>.\<close>

datatype input_value = IRef nat | INum int | IBool bool | IStr string | IDate date

text \<open>Calls to the renderer, to the registered callbacks, to \<open>positionElements\<close>
  and to the \<open>NgbDatepicker\<close> instance of the panel (a component that is not among the
  sources), in the order made.\<close>

datatype dp_call =
    Dp_positionElements nat nat string bool
  | Dp_setElementClass nat string bool
  | Dp_setElementStyle nat string string
  | Dp_onChange callback "date option"
  | Dp_onTouched callback
  | Dp_instance_writeValue nat "date option"
  | Dp_instance_setDisabledState nat bool
  | Dp_instance_set nat string input_value
  | Dp_instance_set_startDate nat "(int \<times> int) option" "date option"
  | Dp_instance_navigate_subscribe nat
  | Dp_instance_ngOnInit nat
  | Dp_instance_registerOnChange nat
  | Dp_instance_navigateTo nat "(int \<times> int) option"
  | Dp_body_appendChild nat
  | Dp_navigate_emit nat

text \<open>
  The fields of the directive. \<open>dp_cRef\<close> is \<open>_cRef\<close> (the panel's component
  reference, \<open>null\<close> at first), \<open>dp_vcRef\<close> the views held by the injected view
  container, \<open>dp_inputs\<close> the inputs by name, \<open>dp_el_value\<close> and
  \<open>dp_el_disabled\<close> the \<open>value\<close> and \<open>disabled\<close> properties of the host input
  element.
\<close>

record datepicker = page +
  dp_cRef :: "nat option"
  dp_model :: "date option"
  dp_ignoreUpdatePosition :: bool
  dp_scrollListener :: "nat option"
  dp_inputs :: "string \<Rightarrow> input_value option"
  dp_startDate :: "(int \<times> int) option"
  dp_onChange :: callback
  dp_onTouched :: callback
  dp_elRef :: nat
  dp_el_value :: string
  dp_el_disabled :: bool
  dp_vcRef :: "nat list"
  dp_calls :: "dp_call list"

definition NgbInputDatepicker_new :: "nat \<Rightarrow> datepicker" where
  "NgbInputDatepicker_new el =
     \<lparr>scroll_listeners = [], fresh = 0,
      dp_cRef = None, dp_model = None, dp_ignoreUpdatePosition = False,
      dp_scrollListener = None, dp_inputs = Map.empty, dp_startDate = None,
      dp_onChange = Noop, dp_onTouched = Noop, dp_elRef = el, dp_el_value = [],
      dp_el_disabled = False, dp_vcRef = [], dp_calls = []\<rparr>"

definition dp_log :: "dp_call list \<Rightarrow> datepicker \<Rightarrow> datepicker" where
  "dp_log cs s = s\<lparr>dp_calls := dp_calls s @ cs\<rparr>"

text \<open>The view container of the framework: \<open>createComponent\<close> appends a view,
  \<open>indexOf\<close> answers \<open>-1\<close> for a view it does not hold, \<open>remove(-1)\<close> removes
  the last view.\<close>

definition vc_indexOf :: "nat list \<Rightarrow> nat \<Rightarrow> int" where
  "vc_indexOf vs v = (if v \<in> set vs then int (length (takeWhile (\<lambda>x. x \<noteq> v) vs)) else - 1)"

definition vc_remove :: "int \<Rightarrow> nat list \<Rightarrow> nat list" where
  "vc_remove i vs =
     (if i = - 1 then butlast vs
      else if 0 \<le> i \<and> i < int (length vs) then take (nat i) vs @ drop (Suc (nat i)) vs
      else vs)"

definition isOpen :: "datepicker \<Rightarrow> bool" where
  "isOpen s = (dp_cRef s \<noteq> None)"

definition dp_writeModelValue :: "dp_services \<Rightarrow> date option \<Rightarrow> datepicker \<Rightarrow> datepicker" where
  "dp_writeModelValue sv model s =
     (let s1 = s\<lparr>dp_el_value := pf_format sv model\<rparr>
      in case dp_cRef s1 of
           Some c \<Rightarrow> dp_log [Dp_instance_writeValue c model, Dp_onTouched (dp_onTouched s1)] s1
         | None \<Rightarrow> s1)"

definition NgbInputDatepicker_writeValue :: "dp_services \<Rightarrow> date option \<Rightarrow> datepicker \<Rightarrow> datepicker" where
  "NgbInputDatepicker_writeValue sv v s =
     (let s1 = s\<lparr>dp_model := (case v of
                                 Some d \<Rightarrow> toValidDate sv (Some \<lparr>year = year d, month = month d, day = day d\<rparr>) None
                               | None \<Rightarrow> None)\<rparr>
      in dp_writeModelValue sv (dp_model s1) s1)"

definition setDisabledState :: "bool \<Rightarrow> datepicker \<Rightarrow> datepicker" where
  "setDisabledState isDisabled s =
     (let s1 = s\<lparr>dp_el_disabled := isDisabled\<rparr>
      in case dp_cRef s1 of
           Some c \<Rightarrow> dp_log [Dp_instance_setDisabledState c isDisabled] s1
         | None \<Rightarrow> s1)"

definition manualDateChange :: "dp_services \<Rightarrow> string \<Rightarrow> datepicker \<Rightarrow> datepicker" where
  "manualDateChange sv v s =
     (let s1 = s\<lparr>dp_model := toValidDate sv (pf_parse sv v) None\<rparr>;
          s2 = dp_log [Dp_onChange (dp_onChange s1)
                         (case dp_model s1 of
                            Some m \<Rightarrow> Some \<lparr>year = year m, month = month m, day = day m\<rparr>
                          | None \<Rightarrow> None)] s1
      in dp_writeModelValue sv (dp_model s2) s2)"

text \<open>The option names \<open>_applyDatepickerInputs\<close> walks through, in its order.\<close>

definition optionNames :: "string list" where
  "optionNames =
     [''dayTemplate'', ''displayMonths'', ''firstDayOfWeek'', ''markDisabled'', ''minDate'',
      ''maxDate'', ''navigation'', ''outsideDays'', ''showFooter'', ''showNavigation'',
      ''showWeekdays'', ''showWeekNumbers'']"

definition dp_applyDatepickerInputs :: "nat \<Rightarrow> datepicker \<Rightarrow> datepicker" where
  "dp_applyDatepickerInputs c s =
     dp_log (concat (map (\<lambda>n. case dp_inputs s n of
                                 Some v \<Rightarrow> [Dp_instance_set c n v]
                               | None \<Rightarrow> []) optionNames)
             @ [Dp_instance_set_startDate c (dp_startDate s)
                  (if dp_startDate s = None then dp_model s else None)]) s"

definition dp_applyPopupStyling :: "nat \<Rightarrow> datepicker \<Rightarrow> datepicker" where
  "dp_applyPopupStyling el s =
     dp_log [Dp_setElementClass el ''dropdown-menu'' True,
             Dp_setElementStyle el ''display'' ''block'',
             Dp_setElementStyle el ''padding'' ''0.40rem''] s"

definition dp_scrollListener_body :: "target \<Rightarrow> datepicker \<Rightarrow> datepicker" where
  "dp_scrollListener_body tgt s =
     (if tgt = Document then s\<lparr>dp_ignoreUpdatePosition := True\<rparr> else s)"

text \<open>\<open>open()\<close>. The panel is created in the view container; what is done to the new
  \<open>NgbDatepicker\<close> instance is recorded as calls. \<open>startDate || _model\<close> is recorded
  as the pair of \<open>startDate\<close> and, when that is undefined, the model.\<close>

definition NgbInputDatepicker_open :: "datepicker \<Rightarrow> datepicker" where
  "NgbInputDatepicker_open s =
     (if \<not> isOpen s then
        (let (c, s1) = alloc s;
             s2 = s1\<lparr>dp_vcRef := dp_vcRef s1 @ [c], dp_cRef := Some c\<rparr>;
             s3 = dp_applyPopupStyling c s2;
             s4 = dp_log [Dp_instance_writeValue c (dp_model s3)] s3;
             s5 = dp_applyDatepickerInputs c s4;
             s6 = dp_log [Dp_instance_navigate_subscribe c, Dp_instance_ngOnInit c,
                          Dp_instance_registerOnChange c, Dp_body_appendChild c] s5;
             (l, s7) = alloc s6;
             s8 = s7\<lparr>dp_scrollListener := Some l\<rparr>
         in addEventListener l s8)
      else s)"

definition NgbInputDatepicker_close :: "datepicker \<Rightarrow> datepicker" where
  "NgbInputDatepicker_close s =
     (let s1 = removeEventListener (dp_scrollListener s) s
      in case dp_cRef s1 of
           Some c \<Rightarrow> s1\<lparr>dp_vcRef := vc_remove (vc_indexOf (dp_vcRef s1) c) (dp_vcRef s1),
                        dp_cRef := None\<rparr>
         | None \<Rightarrow> s1)"

definition NgbInputDatepicker_toggle :: "datepicker \<Rightarrow> datepicker" where
  "NgbInputDatepicker_toggle s =
     (if isOpen s then NgbInputDatepicker_close s else NgbInputDatepicker_open s)"

definition navigateTo :: "(int \<times> int) option \<Rightarrow> datepicker \<Rightarrow> datepicker" where
  "navigateTo d s =
     (case dp_cRef s of
        Some c \<Rightarrow> dp_log [Dp_instance_navigateTo c d] s
      | None \<Rightarrow> s)"

definition onBlur :: "datepicker \<Rightarrow> datepicker" where
  "onBlur s = dp_log [Dp_onTouched (dp_onTouched s)] s"

text \<open>The subscriber the constructor gives to \<open>ngZone.onStable\<close>.\<close>

definition dp_onStable :: "datepicker \<Rightarrow> datepicker" where
  "dp_onStable s =
     (let s1 = (case dp_cRef s of
                  Some c \<Rightarrow>
                    if \<not> dp_ignoreUpdatePosition s
                    then dp_log [Dp_positionElements (dp_elRef s) c ''bottom-left'' True] s
                    else s
                | None \<Rightarrow> s)
      in s1\<lparr>dp_ignoreUpdatePosition := False\<rparr>)"

text \<open>The callback \<open>open\<close> registers on the panel for a selected date.\<close>

definition dp_dateSelected :: "dp_services \<Rightarrow> date option \<Rightarrow> datepicker \<Rightarrow> datepicker" where
  "dp_dateSelected sv d s =
     (let s1 = NgbInputDatepicker_writeValue sv d s;
          s2 = dp_log [Dp_onChange (dp_onChange s1) d] s1
      in NgbInputDatepicker_close s2)"

definition dp_scroll :: "target \<Rightarrow> datepicker \<Rightarrow> datepicker" where
  "dp_scroll tgt s = fold (\<lambda>l t. dp_scrollListener_body tgt t) (scroll_listeners s) s"

text \<open>What reaches the directive: input bindings, the form-control protocol, the host
  bindings \<open>(change)\<close>, \<open>(keyup.esc)\<close> and \<open>(blur)\<close>, the public methods, the
  outputs of the panel while it exists, scroll events and \<open>onStable\<close> ticks.\<close>

datatype dp_event =
    Dp_set_input string "input_value option"
  | Dp_set_startDate "(int \<times> int) option"
  | Dp_registerOnChange nat
  | Dp_registerOnTouched nat
  | Dp_writeValue "date option"
  | Dp_setDisabledState bool
  | Dp_host_change string
  | Dp_host_keyup_esc
  | Dp_host_blur
  | Dp_open
  | Dp_close
  | Dp_toggle
  | Dp_navigateTo "(int \<times> int) option"
  | Dp_panel_selected "date option"
  | Dp_panel_navigate nat
  | Dp_scroll_event target
  | Dp_stable

fun dp_step :: "dp_services \<Rightarrow> datepicker \<Rightarrow> dp_event \<Rightarrow> datepicker" where
  "dp_step sv s (Dp_set_input n v) = s\<lparr>dp_inputs := (dp_inputs s)(n := v)\<rparr>"
| "dp_step sv s (Dp_set_startDate d) = s\<lparr>dp_startDate := d\<rparr>"
| "dp_step sv s (Dp_registerOnChange f) = s\<lparr>dp_onChange := Registered f\<rparr>"
| "dp_step sv s (Dp_registerOnTouched f) = s\<lparr>dp_onTouched := Registered f\<rparr>"
| "dp_step sv s (Dp_writeValue v) = NgbInputDatepicker_writeValue sv v s"
| "dp_step sv s (Dp_setDisabledState b) = setDisabledState b s"
| "dp_step sv s (Dp_host_change v) = manualDateChange sv v (s\<lparr>dp_el_value := v\<rparr>)"
| "dp_step sv s Dp_host_keyup_esc = NgbInputDatepicker_close s"
| "dp_step sv s Dp_host_blur = onBlur s"
| "dp_step sv s Dp_open = NgbInputDatepicker_open s"
| "dp_step sv s Dp_close = NgbInputDatepicker_close s"
| "dp_step sv s Dp_toggle = NgbInputDatepicker_toggle s"
| "dp_step sv s (Dp_navigateTo d) = navigateTo d s"
| "dp_step sv s (Dp_panel_selected d) = (if isOpen s then dp_dateSelected sv d s else s)"
| "dp_step sv s (Dp_panel_navigate e) = (if isOpen s then dp_log [Dp_navigate_emit e] s else s)"
| "dp_step sv s (Dp_scroll_event tgt) = dp_scroll tgt s"
| "dp_step sv s Dp_stable = dp_onStable s"

definition dp_run :: "dp_services \<Rightarrow> datepicker \<Rightarrow> dp_event list \<Rightarrow> datepicker" where
  "dp_run sv s evs = foldl (dp_step sv) s evs"

text \<open>While the panel is open it is the one view of the container and exactly its
  scroll listener is registered; while it is closed there is neither.\<close>

definition dp_inv :: "datepicker \<Rightarrow> bool" where
  "dp_inv s =
     (case dp_cRef s of
        None \<Rightarrow> scroll_listeners s = [] \<and> dp_vcRef s = []
      | Some c \<Rightarrow> dp_vcRef s = [c] \<and>
                  (case dp_scrollListener s of
                     None \<Rightarrow> False
                   | Some l \<Rightarrow> scroll_listeners s = [l]))"

section \<open>NgbTypeahead (typeahead.ts)\<close>

text \<open>
  A result is a value of any type \<open>'r\<close>; \<open>undefined\<close> and \<open>null\<close> are \<open>None\<close>.
  \<open>toString\<close> (../util/util) is not among the sources and whether a result is truthy
  depends on the result type: both are parameters of the model.
\<close>

record 'r ta_util =
  util_toString :: "'r option \<Rightarrow> string"
  truthy :: "'r \<Rightarrow> bool"

text \<open>The enum \<open>Key\<close> with its reverse mapping: \<open>Key[toString(event.which)]\<close> is
  the name of the key for these five codes and \<open>undefined\<close> for every other.\<close>

definition Key :: "int \<Rightarrow> string option" where
  "Key which =
     (if which = 9 then Some ''Tab''
      else if which = 13 then Some ''Enter''
      else if which = 27 then Some ''Escape''
      else if which = 38 then Some ''ArrowUp''
      else if which = 40 then Some ''ArrowDown''
      else None)"

text \<open>What a registered change callback is called with: the text of the input element
  or a selected result.\<close>

datatype 'r ta_value = Typed string | Selected "'r option"

datatype 'r ta_call =
    Ta_popupService_open bool
  | Ta_popupService_close
  | Ta_positionElements nat nat string bool
  | Ta_onChangeNoEmit callback "'r ta_value"
  | Ta_onTouched callback
  | Ta_valueChanges_next string
  | Ta_selectEvent_subscribe nat
  | Ta_selectItem_emit "'r option"
  | Ta_preventDefault

text \<open>
  The fields of the directive: the inputs (\<open>inputFormatter\<close> as the function it is,
  \<open>ngbTypeahead\<close>, \<open>resultFormatter\<close> and \<open>resultTemplate\<close> as references), the two callbacks,
  \<open>_windowRef\<close> with the \<open>NgbTypeaheadWindow\<close> instance it refers to (\<open>None\<close> for
  \<open>undefined\<close> and \<open>null\<close>), \<open>_ignoreUpdatePosition\<close>, \<open>_scrollListener\<close>, the host
  input element and its \<open>value\<close>, and the \<open>top\<close> and \<open>left\<close> last written to the
  panel's style.
\<close>

record 'r typeahead = page +
  ta_inputFormatter :: "('r \<Rightarrow> string) option"
  ngbTypeahead :: "nat option"
  ta_resultFormatter :: "nat option"
  ta_resultTemplate :: "nat option"
  ta_onChangeNoEmit :: callback
  ta_onTouched :: callback
  ta_windowRef :: "'r typeahead_window component_ref option"
  ta_ignoreUpdatePosition :: bool
  ta_scrollListener :: "nat option"
  ta_elementRef :: nat
  ta_el_value :: string
  ta_targetStyle :: "(int \<times> int) option"
  ta_calls :: "'r ta_call list"

definition NgbTypeahead_new :: "nat \<Rightarrow> 'r typeahead" where
  "NgbTypeahead_new el =
     \<lparr>scroll_listeners = [], fresh = 0,
      ta_inputFormatter = None, ngbTypeahead = None, ta_resultFormatter = None, ta_resultTemplate = None,
      ta_onChangeNoEmit = Noop, ta_onTouched = Noop, ta_windowRef = None,
      ta_ignoreUpdatePosition = False, ta_scrollListener = None, ta_elementRef = el,
      ta_el_value = [], ta_targetStyle = None, ta_calls = []\<rparr>"

definition ta_log :: "'r ta_call list \<Rightarrow> 'r typeahead \<Rightarrow> 'r typeahead" where
  "ta_log cs s = s\<lparr>ta_calls := ta_calls s @ cs\<rparr>"

text \<open>\<open>ngAfterViewChecked\<close>; \<open>pos\<close> is the \<open>top\<close> and \<open>left\<close> that
  \<open>positionElements\<close> answers when it is called.\<close>

definition NgbTypeahead_ngAfterViewChecked :: "int \<times> int \<Rightarrow> 'r typeahead \<Rightarrow> 'r typeahead" where
  "NgbTypeahead_ngAfterViewChecked pos s =
     (let s1 = (case ta_windowRef s of
                  Some r \<Rightarrow>
                    if \<not> ta_ignoreUpdatePosition s
                    then (ta_log [Ta_positionElements (ta_elementRef s) (ref_location r) ''bottom-left'' True] s)
                           \<lparr>ta_targetStyle := Some pos\<rparr>
                    else s
                | None \<Rightarrow> s)
      in s1\<lparr>ta_ignoreUpdatePosition := False\<rparr>)"

definition NgbTypeahead_writeValue :: "'r ta_util \<Rightarrow> 'r option \<Rightarrow> 'r typeahead \<Rightarrow> 'r typeahead" where
  "NgbTypeahead_writeValue u v s =
     (let formattedValue =
            (case (v, ta_inputFormatter s) of
               (Some x, Some f) \<Rightarrow> if truthy u x then f x else util_toString u v
             | _ \<Rightarrow> util_toString u v)
      in s\<lparr>ta_el_value := formattedValue\<rparr>)"

definition isPopupOpen :: "'r typeahead \<Rightarrow> bool" where
  "isPopupOpen s = (ta_windowRef s \<noteq> None)"

definition closePopup :: "'r typeahead \<Rightarrow> 'r typeahead" where
  "closePopup s =
     (let s1 = removeEventListener (ta_scrollListener s) s;
          s2 = ta_log [Ta_popupService_close] s1
      in s2\<lparr>ta_windowRef := None\<rparr>)"

definition ta_scrollListener_body :: "target \<Rightarrow> 'r typeahead \<Rightarrow> 'r typeahead" where
  "ta_scrollListener_body tgt s =
     (if tgt = Document then s\<lparr>ta_ignoreUpdatePosition := True\<rparr> else s)"

text \<open>\<open>_openPopup\<close>. The component the popup service creates is a new
  \<open>NgbTypeaheadWindow\<close>; the framework runs its \<open>ngOnInit\<close> before the window
  handles anything.\<close>

definition openPopup :: "'r typeahead \<Rightarrow> 'r typeahead" where
  "openPopup s =
     (if ta_windowRef s = None then
        (let (w, s1) = alloc (ta_log [Ta_popupService_open True] s);
             s2 = s1\<lparr>ta_windowRef := Some \<lparr>ref_location = w,
                                             ref_instance = ngOnInit_tw NgbTypeaheadWindow_new\<rparr>\<rparr>;
             s3 = ta_log [Ta_selectEvent_subscribe w] s2;
             (l, s4) = alloc s3;
             s5 = s4\<lparr>ta_scrollListener := Some l\<rparr>
         in addEventListener l s5)
      else s)"

definition selectResult :: "'r ta_util \<Rightarrow> 'r option \<Rightarrow> 'r typeahead \<Rightarrow> 'r typeahead" where
  "selectResult u result s =
     (let s1 = NgbTypeahead_writeValue u result s;
          s2 = ta_log [Ta_onChangeNoEmit (ta_onChangeNoEmit s1) (Selected result),
                       Ta_selectItem_emit result] s1
      in closePopup s2)"

text \<open>Assigning to the instance behind \<open>_windowRef\<close>.\<close>

definition ta_window_update ::
  "('r typeahead_window \<Rightarrow> 'r typeahead_window) \<Rightarrow> 'r typeahead \<Rightarrow> 'r typeahead" where
  "ta_window_update f s =
     s\<lparr>ta_windowRef := map_option (\<lambda>r. r\<lparr>ref_instance := f (ref_instance r)\<rparr>) (ta_windowRef s)\<rparr>"

text \<open>The subscriber \<open>ngOnInit\<close> attaches to the stream of results; \<open>None\<close> is a
  \<open>null\<close> or \<open>undefined\<close> result list.\<close>

definition ta_results :: "'r list option \<Rightarrow> 'r typeahead \<Rightarrow> 'r typeahead" where
  "ta_results rs s =
     (case rs of
        None \<Rightarrow> closePopup s
      | Some xs \<Rightarrow>
          if length xs = 0 then closePopup s
          else
            (let s1 = openPopup s;
                 s2 = ta_window_update (\<lambda>w. w\<lparr>results := xs\<rparr>) s1;
                 s3 = ta_window_update (\<lambda>w. w\<lparr>term_tw := ta_el_value s2\<rparr>) s2;
                 s4 = (case ta_resultFormatter s3 of
                         Some f \<Rightarrow> ta_window_update (\<lambda>w. w\<lparr>formatter := Some f\<rparr>) s3
                       | None \<Rightarrow> s3)
             in case ta_resultTemplate s4 of
                  Some t \<Rightarrow> ta_window_update (\<lambda>w. w\<lparr>resultTemplate := Some t\<rparr>) s4
                | None \<Rightarrow> s4))"

text \<open>The arrow function \<open>onChange\<close>, bound to the host's \<open>(input)\<close> event.\<close>

definition onChange :: "string \<Rightarrow> 'r typeahead \<Rightarrow> 'r typeahead" where
  "onChange v s = ta_log [Ta_onChangeNoEmit (ta_onChangeNoEmit s) (Typed v), Ta_valueChanges_next v] s"

text \<open>\<open>handleKeyDown\<close>; \<open>lay\<close> is the DOM that \<open>next\<close> and \<open>prev\<close> of the window
  find. An exception of the window leaves the handler.\<close>

definition handleKeyDown :: "'r ta_util \<Rightarrow> int \<Rightarrow> layout \<Rightarrow> 'r typeahead \<Rightarrow> js_error + 'r typeahead" where
  "handleKeyDown u which lay s =
     (case ta_windowRef s of
        None \<Rightarrow> Inr s
      | Some r \<Rightarrow>
          (case Key which of
             None \<Rightarrow> Inr s
           | Some name \<Rightarrow>
               (let s1 = ta_log [Ta_preventDefault] s in
                if which = 40 then
                  (case next_tw lay (ref_instance r) of
                     Inl e \<Rightarrow> Inl e
                   | Inr w \<Rightarrow> Inr (ta_window_update (\<lambda>_. w) s1))
                else if which = 38 then
                  (case prev_tw lay (ref_instance r) of
                     Inl e \<Rightarrow> Inl e
                   | Inr w \<Rightarrow> Inr (ta_window_update (\<lambda>_. w) s1))
                else if which = 13 \<or> which = 9 then
                  Inr (selectResult u (getActive (ref_instance r)) s1)
                else if which = 27 then Inr (closePopup s1)
                else Inr s1)))"

definition ta_scroll :: "target \<Rightarrow> 'r typeahead \<Rightarrow> 'r typeahead" where
  "ta_scroll tgt s = fold (\<lambda>l t. ta_scrollListener_body tgt t) (scroll_listeners s) s"

text \<open>What reaches the directive: input bindings, the form-control protocol, the host
  bindings \<open>(blur)\<close>, \<open>(document:click)\<close>, \<open>(input)\<close> and \<open>(keydown)\<close>, a list of
  results from the subscription, the events of the window's buttons while it exists
  (\<open>mouseenter\<close> on button \<open>idx\<close>, \<open>click\<close> on a result), scroll events and
  \<open>ngAfterViewChecked\<close>.\<close>

datatype 'r ta_event =
    Ta_set_inputFormatter "('r \<Rightarrow> string) option"
  | Ta_set_ngbTypeahead "nat option"
  | Ta_set_resultFormatter "nat option"
  | Ta_set_resultTemplate "nat option"
  | Ta_registerOnChange nat
  | Ta_registerOnTouched nat
  | Ta_writeValue "'r option"
  | Ta_host_blur
  | Ta_document_click
  | Ta_host_input string
  | Ta_host_keydown int layout
  | Ta_results_event "'r list option"
  | Ta_window_mouseenter nat
  | Ta_window_click 'r
  | Ta_scroll_event target
  | Ta_ngAfterViewChecked "int \<times> int"

fun ta_step :: "'r ta_util \<Rightarrow> 'r typeahead \<Rightarrow> 'r ta_event \<Rightarrow> js_error + 'r typeahead" where
  "ta_step u s (Ta_set_inputFormatter f) = Inr (s\<lparr>ta_inputFormatter := f\<rparr>)"
| "ta_step u s (Ta_set_ngbTypeahead f) = Inr (s\<lparr>ngbTypeahead := f\<rparr>)"
| "ta_step u s (Ta_set_resultFormatter f) = Inr (s\<lparr>ta_resultFormatter := f\<rparr>)"
| "ta_step u s (Ta_set_resultTemplate t) = Inr (s\<lparr>ta_resultTemplate := t\<rparr>)"
| "ta_step u s (Ta_registerOnChange f) = Inr (s\<lparr>ta_onChangeNoEmit := Registered f\<rparr>)"
| "ta_step u s (Ta_registerOnTouched f) = Inr (s\<lparr>ta_onTouched := Registered f\<rparr>)"
| "ta_step u s (Ta_writeValue v) = Inr (NgbTypeahead_writeValue u v s)"
| "ta_step u s Ta_host_blur = Inr (ta_log [Ta_onTouched (ta_onTouched s)] s)"
| "ta_step u s Ta_document_click = Inr (closePopup s)"
| "ta_step u s (Ta_host_input v) = Inr (onChange v (s\<lparr>ta_el_value := v\<rparr>))"
| "ta_step u s (Ta_host_keydown which lay) = handleKeyDown u which lay s"
| "ta_step u s (Ta_results_event rs) = Inr (ta_results rs s)"
| "ta_step u s (Ta_window_mouseenter idx) = Inr (ta_window_update (markActive (Num (int idx))) s)"
| "ta_step u s (Ta_window_click x) =
     (if isPopupOpen s then Inr (selectResult u (Some x) (ta_window_update (select_tw (Some x)) s))
      else Inr s)"
| "ta_step u s (Ta_scroll_event tgt) = Inr (ta_scroll tgt s)"
| "ta_step u s (Ta_ngAfterViewChecked pos) = Inr (NgbTypeahead_ngAfterViewChecked pos s)"

fun ta_run :: "'r ta_util \<Rightarrow> 'r typeahead \<Rightarrow> 'r ta_event list \<Rightarrow> js_error + 'r typeahead" where
  "ta_run u s [] = Inr s"
| "ta_run u s (e # evs) =
     (case ta_step u s e of Inl err \<Rightarrow> Inl err | Inr s' \<Rightarrow> ta_run u s' evs)"

text \<open>While a panel is open exactly its scroll listener is registered, its window
  has results and its index is a number; while none is open, no listener is registered.\<close>

definition ta_inv :: "'r typeahead \<Rightarrow> bool" where
  "ta_inv s =
     (case ta_windowRef s of
        None \<Rightarrow> scroll_listeners s = []
      | Some r \<Rightarrow> results (ref_instance r) \<noteq> [] \<and> activeIdx (ref_instance r) \<noteq> NaN \<and>
                  (case ta_scrollListener s of
                     None \<Rightarrow> False
                   | Some l \<Rightarrow> scroll_listeners s = [l]))"

section \<open>Concrete instances for the examples\<close>

text \<open>A parser and formatter for one date format, a validity check on month and day,
  a trigger table for \<open>triggers = 'click'\<close>, and a typeahead over numbers.\<close>

definition example_services :: dp_services where
  "example_services =
     \<lparr>pf_parse = (\<lambda>v. if v = ''2016-02-03'' then Some \<lparr>year = 2016, month = 2, day = 3\<rparr>
                      else if v = ''2016-13-03'' then Some \<lparr>year = 2016, month = 13, day = 3\<rparr>
                      else None),
      pf_format = (\<lambda>d. case d of None \<Rightarrow> [] | Some x \<Rightarrow> ''2016-02-03''),
      toValidDate = (\<lambda>d dflt. case d of
                                  None \<Rightarrow> dflt
                                | Some x \<Rightarrow> if 1 \<le> month x \<and> month x \<le> 12 \<and> 1 \<le> day x \<and> day x \<le> 31
                                            then Some x else dflt)\<rparr>"

definition example_triggers :: listenToTriggers where
  "example_triggers t = (if t = ''click'' then [(''click'', ToggleFn)] else [])"

definition example_util :: "nat ta_util" where
  "example_util =
     \<lparr>util_toString = (\<lambda>v. case v of None \<Rightarrow> [] | Some n \<Rightarrow> replicate n CHR ''x''),
      truthy = (\<lambda>n. n \<noteq> 0)\<rparr>"

definition example_layout :: layout where
  "example_layout =
     \<lparr>directChildren =
        [\<lparr>offsetTop = 0, offsetHeight = 20, isVisible = True\<rparr>,
         \<lparr>offsetTop = 20, offsetHeight = 20, isVisible = True\<rparr>,
         \<lparr>offsetTop = 40, offsetHeight = 20, isVisible = False\<rparr>],
      hostOffsetHeight = 40\<rparr>"

definition example_window :: "nat typeahead_window" where
  "example_window = NgbTypeaheadWindow_new\<lparr>results := [10, 20, 30]\<rparr>"

definition example_datepicker :: datepicker where
  "example_datepicker = dp_run example_services (NgbInputDatepicker_new 1) [Dp_registerOnChange 5, Dp_open]"

definition example_popover :: popover where
  "example_popover =
     po_run example_triggers (NgbPopover_new Top ''click'' 2) [Po_ngOnInit, Po_host ''click'']"

definition example_typeahead :: "nat typeahead" where
  "example_typeahead =
     (case ta_run example_util (NgbTypeahead_new 3) [Ta_host_input ''a'', Ta_results_event (Some [10, 20, 30])] of
        Inr t \<Rightarrow> t
      | Inl e \<Rightarrow> NgbTypeahead_new 3)"

section \<open>Navigation of the typeahead window stays in range\<close>

lemma updateView_Num:
  "activeIdx w = Num i \<Longrightarrow>
   \<exists>w'. updateView lay b w = Inr w' \<and> activeIdx w' = activeIdx w
        \<and> results w' = results w \<and> focusFirst w' = focusFirst w"
  by (simp add: updateView_def Let_def)

lemma next_tw_ok:
  assumes "results w \<noteq> []" and "idx_ok w"
  shows "\<exists>w'. next_tw lay w = Inr w' \<and> idx_ok w' \<and> results w' = results w \<and> focusFirst w' = focusFirst w"
proof -
  from assms(2) obtain i where i: "activeIdx w = Num i"
    by (cases "activeIdx w") (auto simp: idx_ok_def)
  let ?len = "int (length (results w))"
  have len: "0 < ?len" using assms(1) by simp
  define w1 where "w1 = (if activeIdx w = Num (?len - 1)
                then w\<lparr>activeIdx := (if focusFirst w then js_rem (js_add (activeIdx w) 1) ?len else Num (- 1))\<rparr>
                else w\<lparr>activeIdx := js_add (activeIdx w) 1\<rparr>)"
  have eq: "next_tw lay w = updateView lay (js_less (activeIdx w1) (activeIdx w)) w1"
    by (simp add: next_tw_def Let_def w1_def)
  have w1: "idx_ok w1 \<and> results w1 = results w \<and> focusFirst w1 = focusFirst w"
    using assms(2) i len by (auto simp: w1_def idx_ok_def)
  then obtain j where j: "activeIdx w1 = Num j"
    by (cases "activeIdx w1") (auto simp: idx_ok_def)
  from updateView_Num[OF j, of lay "js_less (activeIdx w1) (activeIdx w)"]
  obtain w' where u: "updateView lay (js_less (activeIdx w1) (activeIdx w)) w1 = Inr w'"
    "activeIdx w' = activeIdx w1" "results w' = results w1" "focusFirst w' = focusFirst w1"
    by blast
  have "idx_ok w'" using w1 u(2-4) j by (auto simp: idx_ok_def)
  then show ?thesis using eq u w1 by simp
qed

lemma prev_tw_ok:
  assumes "results w \<noteq> []" and "idx_ok w"
  shows "\<exists>w'. prev_tw lay w = Inr w' \<and> idx_ok w' \<and> results w' = results w \<and> focusFirst w' = focusFirst w"
proof -
  from assms(2) obtain i where i: "activeIdx w = Num i"
    by (cases "activeIdx w") (auto simp: idx_ok_def)
  let ?len = "int (length (results w))"
  have len: "0 < ?len" using assms(1) by simp
  define w1 where "w1 = (if js_less (activeIdx w) (Num 0) then w\<lparr>activeIdx := Num (?len - 1)\<rparr>
                else if activeIdx w = Num 0
                then w\<lparr>activeIdx := (if focusFirst w then Num (?len - 1) else Num (- 1))\<rparr>
                else w\<lparr>activeIdx := js_add (activeIdx w) (- 1)\<rparr>)"
  have eq: "prev_tw lay w = updateView lay (js_less (activeIdx w1) (activeIdx w)) w1"
    by (simp add: prev_tw_def Let_def w1_def)
  have w1: "idx_ok w1 \<and> results w1 = results w \<and> focusFirst w1 = focusFirst w"
    using assms(2) i len by (auto simp: w1_def idx_ok_def)
  then obtain j where j: "activeIdx w1 = Num j"
    by (cases "activeIdx w1") (auto simp: idx_ok_def)
  from updateView_Num[OF j, of lay "js_less (activeIdx w1) (activeIdx w)"]
  obtain w' where u: "updateView lay (js_less (activeIdx w1) (activeIdx w)) w1 = Inr w'"
    "activeIdx w' = activeIdx w1" "results w' = results w1" "focusFirst w' = focusFirst w1"
    by blast
  have "idx_ok w'" using w1 u(2-4) j by (auto simp: idx_ok_def)
  then show ?thesis using eq u w1 by simp
qed

lemma run_tw_ok:
  "results w \<noteq> [] \<Longrightarrow> idx_ok w \<Longrightarrow>
   \<exists>w'. run_tw w ops = Inr w' \<and> idx_ok w' \<and> results w' = results w \<and> focusFirst w' = focusFirst w"
proof (induction ops arbitrary: w)
  case Nil
  then show ?case by simp
next
  case (Cons a ops)
  obtain n lay where a: "a = (n, lay)" by (cases a)
  have "\<exists>w1. nav_tw n lay w = Inr w1 \<and> idx_ok w1 \<and> results w1 = results w \<and> focusFirst w1 = focusFirst w"
    using Cons.prems next_tw_ok prev_tw_ok by (cases n) auto
  then obtain w1 where w1: "nav_tw n lay w = Inr w1" "idx_ok w1" "results w1 = results w"
    "focusFirst w1 = focusFirst w" by blast
  from Cons.IH[of w1] w1 Cons.prems obtain w' where
    "run_tw w1 ops = Inr w'" "idx_ok w'" "results w' = results w1" "focusFirst w' = focusFirst w1"
    by auto
  with w1 a show ?case by simp
qed

lemma ngOnInit_tw_ok: "results w \<noteq> [] \<Longrightarrow> idx_ok (ngOnInit_tw w)"
  by (simp add: ngOnInit_tw_def idx_ok_def)

section \<open>Popover: invariant and effects of the operations\<close>

lemma fold_preserves:
  "(\<And>x t. P t \<Longrightarrow> P (f x t)) \<Longrightarrow> P s \<Longrightarrow> P (fold f xs s)"
  by (induction xs arbitrary: s) auto

lemma po_open_inv: "po_inv s \<Longrightarrow> po_inv (NgbPopover_open s)"
  by (auto simp: po_inv_def NgbPopover_open_def alloc_def addEventListener_def Let_def
           split: option.splits)

lemma po_close_inv: "po_inv s \<Longrightarrow> po_inv (NgbPopover_close s)"
  by (auto simp: po_inv_def NgbPopover_close_def removeEventListener_def Let_def
           split: option.splits)

lemma po_toggle_inv: "po_inv s \<Longrightarrow> po_inv (NgbPopover_toggle s)"
  by (simp add: NgbPopover_toggle_def po_open_inv po_close_inv)

lemma po_tick_inv: "po_inv s \<Longrightarrow> po_inv (NgbPopover_ngAfterViewChecked s)"
  by (auto simp: po_inv_def NgbPopover_ngAfterViewChecked_def Let_def split: option.splits)

lemma po_body_inv: "po_inv s \<Longrightarrow> po_inv (po_scrollListener_body tgt s)"
  by (auto simp: po_inv_def po_scrollListener_body_def split: option.splits)

lemma po_scroll_inv: "po_inv s \<Longrightarrow> po_inv (po_scroll tgt s)"
  unfolding po_scroll_def by (rule fold_preserves) (auto intro: po_body_inv)

lemma po_trigger_inv: "po_inv s \<Longrightarrow> po_inv (po_trigger f s)"
  by (cases f) (simp_all add: po_open_inv po_close_inv po_toggle_inv)

lemma po_host_inv: "po_inv s \<Longrightarrow> po_inv (po_host_event name s)"
  unfolding po_host_event_def by (rule fold_preserves) (auto intro: po_trigger_inv)

lemma po_step_inv: "po_inv s \<Longrightarrow> po_inv (po_step lt s e)"
  by (cases e)
     (simp_all add: po_open_inv po_close_inv po_toggle_inv po_tick_inv po_scroll_inv po_host_inv,
      auto simp: po_inv_def NgbPopover_ngOnInit_def split: option.splits)

lemma po_foldl_inv: "po_inv s \<Longrightarrow> po_inv (foldl (po_step lt) s evs)"
  by (induction evs arbitrary: s) (simp_all add: po_step_inv)

lemma po_new_inv: "po_inv (NgbPopover_new p t el)"
  by (simp add: po_inv_def NgbPopover_new_def)

lemma po_run_inv: "po_inv (po_run lt (NgbPopover_new p t el) evs)"
  unfolding po_run_def by (rule po_foldl_inv) (rule po_new_inv)

lemma scroll_fold_po:
  "fold (\<lambda>l t. po_scrollListener_body tgt t) ls s =
     (if ls \<noteq> [] \<and> tgt = Document then s\<lparr>po_ignoreUpdatePosition := True\<rparr> else s)"
  by (induction ls arbitrary: s) (auto simp: po_scrollListener_body_def)

lemma po_scroll_eq:
  "po_scroll tgt s =
     (if scroll_listeners s \<noteq> [] \<and> tgt = Document then s\<lparr>po_ignoreUpdatePosition := True\<rparr> else s)"
  by (simp add: po_scroll_def scroll_fold_po)

lemma po_open_present: "po_windowRef s \<noteq> None \<Longrightarrow> NgbPopover_open s = s"
  by (auto simp: NgbPopover_open_def)

lemma po_oneshot:
  assumes "po_inv s" and "po_windowRef s = Some r"
  shows "po_ignoreUpdatePosition (po_scroll Document s)"
    and "po_windowRef (po_scroll Document s) = Some r"
    and "po_calls (NgbPopover_ngAfterViewChecked (po_scroll Document s)) = po_calls s"
    and "\<not> po_ignoreUpdatePosition (NgbPopover_ngAfterViewChecked (po_scroll Document s))"
    and "po_calls (NgbPopover_ngAfterViewChecked (NgbPopover_ngAfterViewChecked (po_scroll Document s)))
           = po_calls s @ [Po_positionElements (po_elementRef s) (ref_location r) (po_placement s) True]"
  using assms
  by (auto simp: po_inv_def po_scroll_eq NgbPopover_ngAfterViewChecked_def Let_def
           split: option.splits)

lemma po_scroll_keeps: "po_windowRef (po_scroll tgt s) = po_windowRef s"
  by (simp add: po_scroll_eq)

lemma po_host_unbound:
  "name \<notin> fst ` set ls \<Longrightarrow> fold (\<lambda>(n, f) t. if n = name then po_trigger f t else t) ls s = s"
  by (induction ls arbitrary: s) auto

lemma po_tick_calls:
  "po_calls (NgbPopover_ngAfterViewChecked s) =
     po_calls s @
       (case po_windowRef s of
          Some r \<Rightarrow> if po_ignoreUpdatePosition s then []
                    else [Po_positionElements (po_elementRef s) (ref_location r) (po_placement s) True]
        | None \<Rightarrow> [])"
  by (simp add: NgbPopover_ngAfterViewChecked_def Let_def split: option.splits)

lemma po_close_frame:
  "po_windowRef (NgbPopover_close s) = None \<and>
   ngbPopover (NgbPopover_close s) = ngbPopover s \<and>
   po_title (NgbPopover_close s) = po_title s \<and>
   po_placement (NgbPopover_close s) = po_placement s \<and>
   po_triggers (NgbPopover_close s) = po_triggers s \<and>
   po_listeners (NgbPopover_close s) = po_listeners s \<and>
   po_elementRef (NgbPopover_close s) = po_elementRef s"
  by (simp add: NgbPopover_close_def removeEventListener_def Let_def split: option.splits)

lemma po_toggle_flips:
  "(po_windowRef (NgbPopover_toggle s) = None) = (po_windowRef s \<noteq> None)"
  by (auto simp: NgbPopover_toggle_def NgbPopover_close_def NgbPopover_open_def alloc_def
        addEventListener_def Let_def)

lemma po_close_closed:
  "po_inv s \<Longrightarrow> po_windowRef s = None \<Longrightarrow>
   NgbPopover_close s = s\<lparr>po_calls := po_calls s @ [Po_popupService_close]\<rparr>"
  by (simp add: po_inv_def NgbPopover_close_def removeEventListener_def Let_def split: option.splits)

lemma po_close_twice:
  "NgbPopover_close (NgbPopover_close s) =
     (NgbPopover_close s)\<lparr>po_calls := po_calls (NgbPopover_close s) @ [Po_popupService_close]\<rparr>"
  by (simp add: NgbPopover_close_def removeEventListener_def Let_def split: option.splits)

section \<open>Datepicker input: invariant and effects of the operations\<close>

lemma dp_log_fields [simp]:
  "dp_cRef (dp_log cs s) = dp_cRef s"
  "dp_vcRef (dp_log cs s) = dp_vcRef s"
  "dp_scrollListener (dp_log cs s) = dp_scrollListener s"
  "scroll_listeners (dp_log cs s) = scroll_listeners s"
  "dp_model (dp_log cs s) = dp_model s"
  "dp_ignoreUpdatePosition (dp_log cs s) = dp_ignoreUpdatePosition s"
  "dp_inputs (dp_log cs s) = dp_inputs s"
  "dp_startDate (dp_log cs s) = dp_startDate s"
  "dp_onChange (dp_log cs s) = dp_onChange s"
  "dp_onTouched (dp_log cs s) = dp_onTouched s"
  "dp_elRef (dp_log cs s) = dp_elRef s"
  "dp_el_value (dp_log cs s) = dp_el_value s"
  "dp_el_disabled (dp_log cs s) = dp_el_disabled s"
  "fresh (dp_log cs s) = fresh s"
  "dp_calls (dp_log cs s) = dp_calls s @ cs"
  by (simp_all add: dp_log_def)

lemma dp_inv_log: "dp_inv (dp_log cs s) = dp_inv s"
  by (simp add: dp_inv_def cong: option.case_cong)

lemma vc_remove_single: "vc_remove (vc_indexOf [c] c) [c] = []"
  by (simp add: vc_remove_def vc_indexOf_def)

lemma dp_open_inv: "dp_inv s \<Longrightarrow> dp_inv (NgbInputDatepicker_open s)"
  by (auto simp: dp_inv_def NgbInputDatepicker_open_def isOpen_def alloc_def addEventListener_def
        dp_applyPopupStyling_def dp_applyDatepickerInputs_def Let_def split: option.splits)

lemma dp_close_inv: "dp_inv s \<Longrightarrow> dp_inv (NgbInputDatepicker_close s)"
  by (auto simp: dp_inv_def NgbInputDatepicker_close_def removeEventListener_def Let_def
        vc_remove_single split: option.splits)

lemma dp_toggle_inv: "dp_inv s \<Longrightarrow> dp_inv (NgbInputDatepicker_toggle s)"
  by (simp add: NgbInputDatepicker_toggle_def dp_open_inv dp_close_inv)

lemma dp_writeModelValue_inv: "dp_inv s \<Longrightarrow> dp_inv (dp_writeModelValue sv m s)"
  by (auto simp: dp_inv_def dp_writeModelValue_def Let_def split: option.splits)

lemma dp_writeValue_inv: "dp_inv s \<Longrightarrow> dp_inv (NgbInputDatepicker_writeValue sv v s)"
  unfolding NgbInputDatepicker_writeValue_def Let_def
  by (rule dp_writeModelValue_inv) (auto simp: dp_inv_def split: option.splits)

lemma dp_manual_inv: "dp_inv s \<Longrightarrow> dp_inv (manualDateChange sv v s)"
  unfolding manualDateChange_def Let_def
  by (rule dp_writeModelValue_inv) (auto simp: dp_inv_log dp_inv_def split: option.splits)

lemma dp_setDisabled_inv: "dp_inv s \<Longrightarrow> dp_inv (setDisabledState b s)"
  by (auto simp: dp_inv_def setDisabledState_def Let_def split: option.splits)

lemma dp_stable_inv: "dp_inv s \<Longrightarrow> dp_inv (dp_onStable s)"
  by (auto simp: dp_inv_def dp_onStable_def Let_def split: option.splits)

lemma dp_body_inv: "dp_inv s \<Longrightarrow> dp_inv (dp_scrollListener_body tgt s)"
  by (auto simp: dp_inv_def dp_scrollListener_body_def split: option.splits)

lemma dp_scroll_inv: "dp_inv s \<Longrightarrow> dp_inv (dp_scroll tgt s)"
  unfolding dp_scroll_def by (rule fold_preserves) (auto intro: dp_body_inv)

lemma dp_selected_inv: "dp_inv s \<Longrightarrow> dp_inv (dp_dateSelected sv d s)"
  unfolding dp_dateSelected_def Let_def
  by (intro dp_close_inv) (simp add: dp_inv_log dp_writeValue_inv)

lemma dp_navigateTo_inv: "dp_inv s \<Longrightarrow> dp_inv (navigateTo d s)"
  by (auto simp: navigateTo_def dp_inv_log split: option.splits)

lemma dp_step_inv: "dp_inv s \<Longrightarrow> dp_inv (dp_step sv s e)"
proof (cases e)
  case (Dp_host_change v)
  assume "dp_inv s"
  then have "dp_inv (s\<lparr>dp_el_value := v\<rparr>)" by (auto simp: dp_inv_def split: option.splits)
  then show ?thesis using Dp_host_change by (simp add: dp_manual_inv)
qed (auto simp: dp_open_inv dp_close_inv dp_toggle_inv dp_writeValue_inv dp_setDisabled_inv
        dp_stable_inv dp_scroll_inv dp_selected_inv dp_navigateTo_inv dp_inv_log onBlur_def
        dp_inv_def[of "_\<lparr>dp_inputs := _\<rparr>"] dp_inv_def[of "_\<lparr>dp_startDate := _\<rparr>"]
        dp_inv_def[of "_\<lparr>dp_onChange := _\<rparr>"] dp_inv_def[of "_\<lparr>dp_onTouched := _\<rparr>"]
        dp_inv_def[of s]
        split: option.splits)

lemma dp_foldl_inv: "dp_inv s \<Longrightarrow> dp_inv (foldl (dp_step sv) s evs)"
  by (induction evs arbitrary: s) (simp_all add: dp_step_inv)

lemma dp_new_inv: "dp_inv (NgbInputDatepicker_new el)"
  by (simp add: dp_inv_def NgbInputDatepicker_new_def)

lemma dp_run_inv: "dp_inv (dp_run sv (NgbInputDatepicker_new el) evs)"
  unfolding dp_run_def by (rule dp_foldl_inv) (rule dp_new_inv)

lemma scroll_fold_dp:
  "fold (\<lambda>l t. dp_scrollListener_body tgt t) ls s =
     (if ls \<noteq> [] \<and> tgt = Document then s\<lparr>dp_ignoreUpdatePosition := True\<rparr> else s)"
  by (induction ls arbitrary: s) (auto simp: dp_scrollListener_body_def)

lemma dp_scroll_eq:
  "dp_scroll tgt s =
     (if scroll_listeners s \<noteq> [] \<and> tgt = Document then s\<lparr>dp_ignoreUpdatePosition := True\<rparr> else s)"
  by (simp add: dp_scroll_def scroll_fold_dp)

lemma dp_open_present: "dp_cRef s \<noteq> None \<Longrightarrow> NgbInputDatepicker_open s = s"
  by (auto simp: NgbInputDatepicker_open_def isOpen_def)

lemma dp_oneshot:
  assumes "dp_inv s" and "dp_cRef s = Some c"
  shows "dp_ignoreUpdatePosition (dp_scroll Document s)"
    and "dp_cRef (dp_scroll Document s) = Some c"
    and "dp_calls (dp_onStable (dp_scroll Document s)) = dp_calls s"
    and "\<not> dp_ignoreUpdatePosition (dp_onStable (dp_scroll Document s))"
    and "dp_calls (dp_onStable (dp_onStable (dp_scroll Document s)))
           = dp_calls s @ [Dp_positionElements (dp_elRef s) c ''bottom-left'' True]"
  using assms
  by (auto simp: dp_inv_def dp_scroll_eq dp_onStable_def Let_def split: option.splits)

lemma dp_scroll_keeps: "dp_cRef (dp_scroll tgt s) = dp_cRef s"
  by (simp add: dp_scroll_eq)

lemma dp_close_closes: "dp_cRef (NgbInputDatepicker_close s) = None"
  by (simp add: NgbInputDatepicker_close_def removeEventListener_def Let_def split: option.splits)

lemma dp_tick_calls:
  "dp_calls (dp_onStable s) =
     dp_calls s @
       (case dp_cRef s of
          Some c \<Rightarrow> if dp_ignoreUpdatePosition s then []
                    else [Dp_positionElements (dp_elRef s) c ''bottom-left'' True]
        | None \<Rightarrow> [])"
  by (simp add: dp_onStable_def Let_def split: option.splits)

lemma dp_close_frame:
  "dp_cRef (NgbInputDatepicker_close s) = None \<and>
   dp_model (NgbInputDatepicker_close s) = dp_model s \<and>
   dp_onChange (NgbInputDatepicker_close s) = dp_onChange s \<and>
   dp_onTouched (NgbInputDatepicker_close s) = dp_onTouched s \<and>
   dp_inputs (NgbInputDatepicker_close s) = dp_inputs s \<and>
   dp_startDate (NgbInputDatepicker_close s) = dp_startDate s \<and>
   dp_elRef (NgbInputDatepicker_close s) = dp_elRef s \<and>
   dp_calls (NgbInputDatepicker_close s) = dp_calls s"
  by (simp add: NgbInputDatepicker_close_def removeEventListener_def Let_def split: option.splits)

lemma dp_manual_null:
  assumes "toValidDate sv (pf_parse sv v) None = None"
  shows "dp_model (manualDateChange sv v s) = None"
    and "dp_el_value (manualDateChange sv v s) = pf_format sv None"
    and "dp_calls (manualDateChange sv v s) =
           dp_calls s @ [Dp_onChange (dp_onChange s) None] @
             (case dp_cRef s of
                Some c \<Rightarrow> [Dp_instance_writeValue c None, Dp_onTouched (dp_onTouched s)]
              | None \<Rightarrow> [])"
  using assms
  by (simp_all add: manualDateChange_def dp_writeModelValue_def dp_log_def Let_def split: option.splits)

lemma dp_toggle_flips: "isOpen (NgbInputDatepicker_toggle s) = (\<not> isOpen s)"
  by (auto simp: NgbInputDatepicker_toggle_def isOpen_def dp_close_closes
        NgbInputDatepicker_open_def alloc_def addEventListener_def dp_applyPopupStyling_def
        dp_applyDatepickerInputs_def dp_log_def Let_def)

lemma dp_close_closed:
  "dp_inv s \<Longrightarrow> dp_cRef s = None \<Longrightarrow> NgbInputDatepicker_close s = s"
  by (simp add: dp_inv_def NgbInputDatepicker_close_def removeEventListener_def Let_def
        split: option.splits)

lemma dp_close_twice:
  "NgbInputDatepicker_close (NgbInputDatepicker_close s) = NgbInputDatepicker_close s"
  by (simp add: NgbInputDatepicker_close_def removeEventListener_def Let_def split: option.splits)

section \<open>Typeahead: invariant and effects of the operations\<close>

lemma ta_log_fields [simp]:
  "ta_windowRef (ta_log cs s) = ta_windowRef s"
  "ta_scrollListener (ta_log cs s) = ta_scrollListener s"
  "scroll_listeners (ta_log cs s) = scroll_listeners s"
  "ta_ignoreUpdatePosition (ta_log cs s) = ta_ignoreUpdatePosition s"
  "ta_inputFormatter (ta_log cs s) = ta_inputFormatter s"
  "ta_resultFormatter (ta_log cs s) = ta_resultFormatter s"
  "ta_resultTemplate (ta_log cs s) = ta_resultTemplate s"
  "ta_onChangeNoEmit (ta_log cs s) = ta_onChangeNoEmit s"
  "ta_onTouched (ta_log cs s) = ta_onTouched s"
  "ta_elementRef (ta_log cs s) = ta_elementRef s"
  "ta_el_value (ta_log cs s) = ta_el_value s"
  "ta_targetStyle (ta_log cs s) = ta_targetStyle s"
  "fresh (ta_log cs s) = fresh s"
  "ta_calls (ta_log cs s) = ta_calls s @ cs"
  by (simp_all add: ta_log_def)

lemma ta_inv_log: "ta_inv (ta_log cs s) = ta_inv s"
  by (simp add: ta_inv_def cong: option.case_cong)

lemma ta_close_inv: "ta_inv s \<Longrightarrow> ta_inv (closePopup s)"
  by (auto simp: ta_inv_def closePopup_def Let_def removeEventListener_def split: option.splits)

lemma ta_writeValue_inv: "ta_inv s \<Longrightarrow> ta_inv (NgbTypeahead_writeValue u v s)"
  by (auto simp: ta_inv_def NgbTypeahead_writeValue_def Let_def split: option.splits)

lemma ta_select_inv: "ta_inv s \<Longrightarrow> ta_inv (selectResult u r s)"
  unfolding selectResult_def Let_def
  by (intro ta_close_inv) (simp add: ta_inv_log ta_writeValue_inv)

lemma ta_tick_inv: "ta_inv s \<Longrightarrow> ta_inv (NgbTypeahead_ngAfterViewChecked pos s)"
  by (auto simp: ta_inv_def NgbTypeahead_ngAfterViewChecked_def Let_def split: option.splits)

lemma ta_body_inv: "ta_inv s \<Longrightarrow> ta_inv (ta_scrollListener_body tgt s)"
  by (auto simp: ta_inv_def ta_scrollListener_body_def split: option.splits)

lemma ta_scroll_inv: "ta_inv s \<Longrightarrow> ta_inv (ta_scroll tgt s)"
  unfolding ta_scroll_def by (rule fold_preserves) (auto intro: ta_body_inv)

text \<open>Updating the window keeps the invariant when the new window has results and a
  numeric index.\<close>

lemma ta_window_update_inv:
  assumes "ta_inv s"
    and "\<And>w. results w \<noteq> [] \<Longrightarrow> activeIdx w \<noteq> NaN \<Longrightarrow> results (f w) \<noteq> [] \<and> activeIdx (f w) \<noteq> NaN"
  shows "ta_inv (ta_window_update f s)"
  using assms by (auto simp: ta_inv_def ta_window_update_def split: option.splits)

lemma ta_results_inv: "ta_inv s \<Longrightarrow> ta_inv (ta_results rs s)"
  by (auto simp: ta_inv_def ta_results_def ta_close_inv openPopup_def alloc_def
        addEventListener_def removeEventListener_def closePopup_def
        ta_window_update_def ngOnInit_tw_def NgbTypeaheadWindow_new_def Let_def
        split: option.splits)

lemma next_tw_num:
  assumes "results w \<noteq> []" and "activeIdx w \<noteq> NaN"
  shows "\<exists>w'. next_tw lay w = Inr w' \<and> results w' = results w \<and> activeIdx w' \<noteq> NaN"
proof -
  obtain i where i: "activeIdx w = Num i" using assms(2) by (cases "activeIdx w") auto
  define w1 where "w1 = (if activeIdx w = Num (int (length (results w)) - 1)
                then w\<lparr>activeIdx := (if focusFirst w then js_rem (js_add (activeIdx w) 1) (int (length (results w))) else Num (- 1))\<rparr>
                else w\<lparr>activeIdx := js_add (activeIdx w) 1\<rparr>)"
  have eq: "next_tw lay w = updateView lay (js_less (activeIdx w1) (activeIdx w)) w1"
    by (simp add: next_tw_def Let_def w1_def)
  have "\<exists>j. activeIdx w1 = Num j" and r: "results w1 = results w"
    using assms(1) i by (auto simp: w1_def)
  then obtain j where j: "activeIdx w1 = Num j" by blast
  from updateView_Num[OF j, of lay "js_less (activeIdx w1) (activeIdx w)"]
  show ?thesis using eq r j by auto
qed

lemma prev_tw_num:
  assumes "results w \<noteq> []" and "activeIdx w \<noteq> NaN"
  shows "\<exists>w'. prev_tw lay w = Inr w' \<and> results w' = results w \<and> activeIdx w' \<noteq> NaN"
proof -
  obtain i where i: "activeIdx w = Num i" using assms(2) by (cases "activeIdx w") auto
  define w1 where "w1 = (if js_less (activeIdx w) (Num 0) then w\<lparr>activeIdx := Num (int (length (results w)) - 1)\<rparr>
                else if activeIdx w = Num 0
                then w\<lparr>activeIdx := (if focusFirst w then Num (int (length (results w)) - 1) else Num (- 1))\<rparr>
                else w\<lparr>activeIdx := js_add (activeIdx w) (- 1)\<rparr>)"
  have eq: "prev_tw lay w = updateView lay (js_less (activeIdx w1) (activeIdx w)) w1"
    by (simp add: prev_tw_def Let_def w1_def)
  have "\<exists>j. activeIdx w1 = Num j" and r: "results w1 = results w"
    using assms(1) i by (auto simp: w1_def)
  then obtain j where j: "activeIdx w1 = Num j" by blast
  from updateView_Num[OF j, of lay "js_less (activeIdx w1) (activeIdx w)"]
  show ?thesis using eq r j by auto
qed

lemma ta_keydown_inv:
  assumes "ta_inv s"
  shows "\<exists>s'. handleKeyDown u which lay s = Inr s' \<and> ta_inv s'"
proof (cases "ta_windowRef s")
  case None
  then show ?thesis using assms by (simp add: handleKeyDown_def)
next
  case (Some r)
  with assms have w: "results (ref_instance r) \<noteq> []" "activeIdx (ref_instance r) \<noteq> NaN"
    by (auto simp: ta_inv_def)
  have l: "ta_inv (ta_log [Ta_preventDefault] s)" using assms by (simp add: ta_inv_log)
  show ?thesis
  proof (cases "Key which")
    case None
    then show ?thesis using Some assms by (simp add: handleKeyDown_def)
  next
    case (Some name)
    note key = this
    consider "which = 40" | "which = 38" | "which = 13 \<or> which = 9" | "which = 27"
      using key by (auto simp: Key_def split: if_splits)
    then show ?thesis
    proof cases
      case 1
      from next_tw_num[OF w, of lay] obtain w' where
        w': "next_tw lay (ref_instance r) = Inr w'" "results w' = results (ref_instance r)" "activeIdx w' \<noteq> NaN"
        by blast
      have "ta_inv (ta_window_update (\<lambda>_. w') (ta_log [Ta_preventDefault] s))"
        using l w' w by (intro ta_window_update_inv) auto
      then show ?thesis using 1 key \<open>ta_windowRef s = Some r\<close> w'(1)
        by (simp add: handleKeyDown_def Let_def)
    next
      case 2
      from prev_tw_num[OF w, of lay] obtain w' where
        w': "prev_tw lay (ref_instance r) = Inr w'" "results w' = results (ref_instance r)" "activeIdx w' \<noteq> NaN"
        by blast
      have "ta_inv (ta_window_update (\<lambda>_. w') (ta_log [Ta_preventDefault] s))"
        using l w' w by (intro ta_window_update_inv) auto
      then show ?thesis using 2 key \<open>ta_windowRef s = Some r\<close> w'(1)
        by (simp add: handleKeyDown_def Let_def)
    next
      case 3
      then show ?thesis using key \<open>ta_windowRef s = Some r\<close> ta_select_inv[OF l]
        by (auto simp: handleKeyDown_def Let_def)
    next
      case 4
      then show ?thesis using key \<open>ta_windowRef s = Some r\<close> ta_close_inv[OF l]
        by (auto simp: handleKeyDown_def Let_def)
    qed
  qed
qed

lemma ta_step_inv:
  assumes "ta_inv s"
  shows "\<exists>s'. ta_step u s e = Inr s' \<and> ta_inv s'"
proof (cases e)
  case (Ta_host_keydown which lay)
  then show ?thesis using ta_keydown_inv[OF assms] by simp
next
  case (Ta_host_input v)
  have "ta_inv (s\<lparr>ta_el_value := v\<rparr>)" using assms by (auto simp: ta_inv_def split: option.splits)
  then show ?thesis using Ta_host_input by (simp add: onChange_def ta_inv_log)
next
  case (Ta_window_mouseenter idx)
  have "ta_inv (ta_window_update (markActive (Num (int idx))) s)"
    using assms by (intro ta_window_update_inv) (auto simp: markActive_def)
  then show ?thesis using Ta_window_mouseenter by simp
next
  case (Ta_window_click x)
  have "ta_inv (ta_window_update (select_tw (Some x)) s)"
    using assms by (intro ta_window_update_inv) (auto simp: select_tw_def)
  then show ?thesis using Ta_window_click assms by (simp add: ta_select_inv)
qed (use assms in \<open>auto simp: ta_writeValue_inv ta_close_inv ta_results_inv ta_scroll_inv
        ta_tick_inv ta_inv_log
        ta_inv_def[of "_\<lparr>ta_inputFormatter := _\<rparr>"] ta_inv_def[of "_\<lparr>ta_resultFormatter := _\<rparr>"]
        ta_inv_def[of "_\<lparr>ngbTypeahead := _\<rparr>"]
        ta_inv_def[of "_\<lparr>ta_resultTemplate := _\<rparr>"] ta_inv_def[of "_\<lparr>ta_onChangeNoEmit := _\<rparr>"]
        ta_inv_def[of "_\<lparr>ta_onTouched := _\<rparr>"] ta_inv_def[of s]
        split: option.splits\<close>)

lemma ta_run_from_inv:
  "ta_inv s \<Longrightarrow> \<exists>s'. ta_run u s evs = Inr s' \<and> ta_inv s'"
proof (induction evs arbitrary: s)
  case Nil
  then show ?case by simp
next
  case (Cons e evs)
  from ta_step_inv[OF Cons.prems, of u e] obtain s1 where "ta_step u s e = Inr s1" "ta_inv s1"
    by blast
  with Cons.IH[of s1] show ?case by simp
qed

lemma ta_new_inv: "ta_inv (NgbTypeahead_new el)"
  by (simp add: ta_inv_def NgbTypeahead_new_def)

lemma ta_run_total: "\<exists>s. ta_run u (NgbTypeahead_new el) evs = Inr s \<and> ta_inv s"
  by (rule ta_run_from_inv) (rule ta_new_inv)

lemma ta_run_inv: "ta_run u (NgbTypeahead_new el) evs = Inr s \<Longrightarrow> ta_inv s"
  using ta_run_total[of u el evs] by auto

section \<open>Ticks after a scroll event\<close>

lemma scroll_fold_ta:
  "fold (\<lambda>l t. ta_scrollListener_body tgt t) ls s =
     (if ls \<noteq> [] \<and> tgt = Document then s\<lparr>ta_ignoreUpdatePosition := True\<rparr> else s)"
  by (induction ls arbitrary: s) (auto simp: ta_scrollListener_body_def)

lemma ta_scroll_eq:
  "ta_scroll tgt s =
     (if scroll_listeners s \<noteq> [] \<and> tgt = Document then s\<lparr>ta_ignoreUpdatePosition := True\<rparr> else s)"
  by (simp add: ta_scroll_def scroll_fold_ta)

lemma ta_open_present: "ta_windowRef s \<noteq> None \<Longrightarrow> openPopup s = s"
  by (auto simp: openPopup_def)

lemma ta_tick_calls:
  "ta_calls (NgbTypeahead_ngAfterViewChecked pos s) =
     ta_calls s @
       (case ta_windowRef s of
          Some r \<Rightarrow> if ta_ignoreUpdatePosition s then []
                    else [Ta_positionElements (ta_elementRef s) (ref_location r) ''bottom-left'' True]
        | None \<Rightarrow> [])"
  by (simp add: NgbTypeahead_ngAfterViewChecked_def Let_def split: option.splits)

lemma ta_tick_fields:
  "ta_windowRef (NgbTypeahead_ngAfterViewChecked pos s) = ta_windowRef s"
  "ta_elementRef (NgbTypeahead_ngAfterViewChecked pos s) = ta_elementRef s"
  "\<not> ta_ignoreUpdatePosition (NgbTypeahead_ngAfterViewChecked pos s)"
  by (simp_all add: NgbTypeahead_ngAfterViewChecked_def Let_def split: option.splits)

lemma po_tick_fields:
  "po_windowRef (NgbPopover_ngAfterViewChecked s) = po_windowRef s"
  "po_elementRef (NgbPopover_ngAfterViewChecked s) = po_elementRef s"
  "po_placement (NgbPopover_ngAfterViewChecked s) = po_placement s"
  "\<not> po_ignoreUpdatePosition (NgbPopover_ngAfterViewChecked s)"
  by (simp_all add: NgbPopover_ngAfterViewChecked_def Let_def split: option.splits)

lemma dp_tick_fields:
  "dp_cRef (dp_onStable s) = dp_cRef s"
  "dp_elRef (dp_onStable s) = dp_elRef s"
  "\<not> dp_ignoreUpdatePosition (dp_onStable s)"
  by (simp_all add: dp_onStable_def Let_def split: option.splits)

lemma dp_ticks:
  assumes "dp_cRef s = Some c" and "\<not> dp_ignoreUpdatePosition s"
  shows "dp_calls ((dp_onStable ^^ n) s) =
           dp_calls s @ replicate n (Dp_positionElements (dp_elRef s) c ''bottom-left'' True)
         \<and> dp_cRef ((dp_onStable ^^ n) s) = Some c
         \<and> dp_elRef ((dp_onStable ^^ n) s) = dp_elRef s
         \<and> \<not> dp_ignoreUpdatePosition ((dp_onStable ^^ n) s)"
proof (induction n)
  case 0
  show ?case using assms by simp
next
  case (Suc n)
  then show ?case
    by (simp add: dp_tick_calls dp_tick_fields replicate_append_same)
qed

lemma po_ticks:
  assumes "po_windowRef s = Some r" and "\<not> po_ignoreUpdatePosition s"
  shows "po_calls ((NgbPopover_ngAfterViewChecked ^^ n) s) =
           po_calls s @ replicate n (Po_positionElements (po_elementRef s) (ref_location r) (po_placement s) True)
         \<and> po_windowRef ((NgbPopover_ngAfterViewChecked ^^ n) s) = Some r
         \<and> po_elementRef ((NgbPopover_ngAfterViewChecked ^^ n) s) = po_elementRef s
         \<and> po_placement ((NgbPopover_ngAfterViewChecked ^^ n) s) = po_placement s
         \<and> \<not> po_ignoreUpdatePosition ((NgbPopover_ngAfterViewChecked ^^ n) s)"
proof (induction n)
  case 0
  show ?case using assms by simp
next
  case (Suc n)
  then show ?case
    by (simp add: po_tick_calls po_tick_fields replicate_append_same)
qed

lemma ta_ticks:
  assumes "ta_windowRef s = Some r" and "\<not> ta_ignoreUpdatePosition s"
  shows "ta_calls (foldl (\<lambda>t pos. NgbTypeahead_ngAfterViewChecked pos t) s ps) =
           ta_calls s @ replicate (length ps) (Ta_positionElements (ta_elementRef s) (ref_location r) ''bottom-left'' True)"
  using assms
proof (induction ps arbitrary: s)
  case Nil
  show ?case by simp
next
  case (Cons p ps)
  have "ta_windowRef (NgbTypeahead_ngAfterViewChecked p s) = Some r"
    "\<not> ta_ignoreUpdatePosition (NgbTypeahead_ngAfterViewChecked p s)"
    using Cons.prems by (simp_all add: ta_tick_fields)
  from Cons.IH[OF this] show ?case
    using Cons.prems by (simp add: ta_tick_calls ta_tick_fields replicate_append_same)
qed

lemma ta_oneshot:
  assumes "ta_inv s" and "ta_windowRef s = Some r"
  shows "ta_ignoreUpdatePosition (ta_scroll Document s)"
    and "ta_windowRef (ta_scroll Document s) = Some r"
    and "ta_elementRef (ta_scroll Document s) = ta_elementRef s"
    and "ta_calls (ta_scroll Document s) = ta_calls s"
  using assms
  by (auto simp: ta_inv_def ta_scroll_eq split: option.splits)

lemma po_scroll_frame:
  assumes "po_inv s" and "po_windowRef s = Some r"
  shows "po_elementRef (po_scroll Document s) = po_elementRef s"
    and "po_placement (po_scroll Document s) = po_placement s"
    and "po_calls (po_scroll Document s) = po_calls s"
  using assms
  by (auto simp: po_inv_def po_scroll_eq split: option.splits)

lemma dp_scroll_frame:
  assumes "dp_inv s" and "dp_cRef s = Some c"
  shows "dp_elRef (dp_scroll Document s) = dp_elRef s"
    and "dp_calls (dp_scroll Document s) = dp_calls s"
  using assms
  by (auto simp: dp_inv_def dp_scroll_eq split: option.splits)

lemma ta_scroll_keeps: "ta_windowRef (ta_scroll tgt s) = ta_windowRef s"
  by (simp add: ta_scroll_eq)

lemma ta_close_frame:
  "ta_windowRef (closePopup s) = None \<and>
   ta_inputFormatter (closePopup s) = ta_inputFormatter s \<and>
   ta_resultFormatter (closePopup s) = ta_resultFormatter s \<and>
   ta_resultTemplate (closePopup s) = ta_resultTemplate s \<and>
   ta_onChangeNoEmit (closePopup s) = ta_onChangeNoEmit s \<and>
   ta_onTouched (closePopup s) = ta_onTouched s \<and>
   ta_elementRef (closePopup s) = ta_elementRef s \<and>
   ta_el_value (closePopup s) = ta_el_value s"
  by (simp add: closePopup_def removeEventListener_def Let_def split: option.splits)

lemma ta_esc:
  "handleKeyDown u 27 lay s =
     Inr (case ta_windowRef s of None \<Rightarrow> s | Some r \<Rightarrow> closePopup (ta_log [Ta_preventDefault] s))"
  by (simp add: handleKeyDown_def Key_def Let_def split: option.splits)

lemma ta_close_closed:
  "ta_inv s \<Longrightarrow> ta_windowRef s = None \<Longrightarrow>
   closePopup s = s\<lparr>ta_calls := ta_calls s @ [Ta_popupService_close]\<rparr>"
  by (simp add: ta_inv_def closePopup_def ta_log_def removeEventListener_def Let_def split: option.splits)

lemma ta_close_twice:
  "closePopup (closePopup s) =
     (closePopup s)\<lparr>ta_calls := ta_calls (closePopup s) @ [Ta_popupService_close]\<rparr>"
  by (simp add: closePopup_def ta_log_def removeEventListener_def Let_def split: option.splits)

section \<open>The example states, evaluated\<close>

lemma example_datepicker_state:
  "dp_cRef example_datepicker = Some 0"
  "dp_scrollListener example_datepicker = Some 1"
  "scroll_listeners example_datepicker = [1]"
  "dp_vcRef example_datepicker = [0]"
  "dp_elRef example_datepicker = 1"
  "dp_ignoreUpdatePosition example_datepicker = False"
  "dp_onChange example_datepicker = Registered 5"
  "dp_onTouched example_datepicker = Noop"
  by (simp_all add: example_datepicker_def dp_run_def NgbInputDatepicker_new_def
        NgbInputDatepicker_open_def isOpen_def alloc_def addEventListener_def
        dp_applyPopupStyling_def dp_applyDatepickerInputs_def dp_log_def Let_def)

lemma example_popover_state:
  "po_windowRef example_popover =
     Some \<lparr>ref_location = 0, ref_instance = \<lparr>pw_placement = Top, pw_title = None\<rparr>\<rparr>"
  "po_scrollListener example_popover = Some 1"
  "scroll_listeners example_popover = [1]"
  "po_listeners example_popover = [(''click'', ToggleFn)]"
  "po_elementRef example_popover = 2"
  "po_placement example_popover = Top"
  "po_ignoreUpdatePosition example_popover = False"
  "po_calls example_popover = [Po_popupService_open None True]"
  by (simp_all add: example_popover_def po_run_def NgbPopover_new_def NgbPopover_ngOnInit_def
        example_triggers_def po_host_event_def NgbPopover_toggle_def NgbPopover_open_def
        NgbPopoverWindow_new_def alloc_def addEventListener_def Let_def)

lemma example_typeahead_run:
  "ta_run example_util (NgbTypeahead_new 3) [Ta_host_input ''a'', Ta_results_event (Some [10, 20, 30])]
     = Inr example_typeahead"
  using ta_run_total[of example_util 3 "[Ta_host_input ''a'', Ta_results_event (Some [10, 20, 30])]"]
  by (auto simp: example_typeahead_def)

lemma example_typeahead_state:
  "ta_windowRef example_typeahead =
     Some \<lparr>ref_location = 0,
           ref_instance = \<lparr>activeIdx = Num 0, focusFirst = True, results = [10, 20, 30],
                            term_tw = ''a'', formatter = None, resultTemplate = None,
                            selectEvent = [], scrollTop = 0\<rparr>\<rparr>"
  "ta_scrollListener example_typeahead = Some 1"
  "scroll_listeners example_typeahead = [1]"
  "ta_elementRef example_typeahead = 3"
  "ta_ignoreUpdatePosition example_typeahead = False"
  by (simp_all add: example_typeahead_def NgbTypeahead_new_def onChange_def ta_log_def
        ta_results_def openPopup_def ta_window_update_def ngOnInit_tw_def
        NgbTypeaheadWindow_new_def alloc_def addEventListener_def Let_def)

section \<open>The claims\<close>

text \<open>
  C1. At most one floating panel per widget: calling the open operation
  (\<open>NgbInputDatepicker.open\<close>, \<open>NgbPopover.open\<close>, \<open>NgbTypeahead._openPopup\<close>) while a
  panel reference is present changes nothing at all: no component is created, no call
  reaches the popup service, the reference stays what it was. For the datepicker input,
  whose view container is part of the model, the container never holds more than one
  panel, whatever sequence of events the directive has handled.
\<close>

theorem C1_open_with_panel_present:
  "(dp_cRef d \<noteq> None \<longrightarrow> NgbInputDatepicker_open d = d) \<and>
   (po_windowRef p \<noteq> None \<longrightarrow> NgbPopover_open p = p) \<and>
   (ta_windowRef t \<noteq> None \<longrightarrow> openPopup t = t) \<and>
   length (dp_vcRef (dp_run sv (NgbInputDatepicker_new el) evs)) \<le> 1"
proof -
  have "dp_inv (dp_run sv (NgbInputDatepicker_new el) evs)" by (rule dp_run_inv)
  then have "length (dp_vcRef (dp_run sv (NgbInputDatepicker_new el) evs)) \<le> 1"
    by (auto simp: dp_inv_def split: option.splits)
  then show ?thesis
    by (simp add: dp_open_present po_open_present ta_open_present)
qed

theorem C1_witness:
  "dp_cRef example_datepicker \<noteq> None \<and>
   NgbInputDatepicker_open example_datepicker = example_datepicker \<and>
   po_windowRef example_popover \<noteq> None \<and>
   NgbPopover_open example_popover = example_popover \<and>
   ta_windowRef example_typeahead \<noteq> None \<and>
   openPopup example_typeahead = example_typeahead \<and>
   length (dp_vcRef (dp_run example_services (NgbInputDatepicker_new 1)
                       [Dp_open, Dp_open, Dp_toggle, Dp_toggle, Dp_open])) \<le> 1"
  using C1_open_with_panel_present[of example_datepicker example_popover example_typeahead
          example_services 1 "[Dp_open, Dp_open, Dp_toggle, Dp_toggle, Dp_open]"]
  by (simp add: example_datepicker_state example_popover_state example_typeahead_state)

text \<open>
  C2. The scroll-suppression flag is one-shot. Take any state a widget has reached in
  which its panel is open. A scroll event whose target is the document sets
  \<open>_ignoreUpdatePosition\<close>; the next tick (\<open>onStable\<close>, \<open>ngAfterViewChecked\<close>) makes
  no \<open>positionElements\<close> call and clears the flag; each of the \<open>n\<close> ticks that
  follow makes one \<open>positionElements\<close> call for the anchor and the panel.
\<close>

theorem C2_scroll_suppression_is_one_shot:
  "(d = dp_run sv (NgbInputDatepicker_new el) evs \<and> dp_cRef d = Some c \<longrightarrow>
      dp_ignoreUpdatePosition (dp_scroll Document d) \<and>
      dp_calls (dp_onStable (dp_scroll Document d)) = dp_calls (dp_scroll Document d) \<and>
      \<not> dp_ignoreUpdatePosition (dp_onStable (dp_scroll Document d)) \<and>
      dp_calls ((dp_onStable ^^ n) (dp_onStable (dp_scroll Document d))) =
        dp_calls (dp_onStable (dp_scroll Document d)) @
          replicate n (Dp_positionElements (dp_elRef d) c ''bottom-left'' True)) \<and>
   (p = po_run lt (NgbPopover_new pl tr el') evs' \<and> po_windowRef p = Some r \<longrightarrow>
      po_ignoreUpdatePosition (po_scroll Document p) \<and>
      po_calls (NgbPopover_ngAfterViewChecked (po_scroll Document p)) = po_calls (po_scroll Document p) \<and>
      \<not> po_ignoreUpdatePosition (NgbPopover_ngAfterViewChecked (po_scroll Document p)) \<and>
      po_calls ((NgbPopover_ngAfterViewChecked ^^ n) (NgbPopover_ngAfterViewChecked (po_scroll Document p))) =
        po_calls (NgbPopover_ngAfterViewChecked (po_scroll Document p)) @
          replicate n (Po_positionElements (po_elementRef p) (ref_location r) (po_placement p) True)) \<and>
   (ta_run u (NgbTypeahead_new el'') evs'' = Inr t \<and> ta_windowRef t = Some w \<longrightarrow>
      ta_ignoreUpdatePosition (ta_scroll Document t) \<and>
      ta_calls (NgbTypeahead_ngAfterViewChecked pos (ta_scroll Document t)) = ta_calls (ta_scroll Document t) \<and>
      \<not> ta_ignoreUpdatePosition (NgbTypeahead_ngAfterViewChecked pos (ta_scroll Document t)) \<and>
      ta_calls (foldl (\<lambda>x q. NgbTypeahead_ngAfterViewChecked q x)
                  (NgbTypeahead_ngAfterViewChecked pos (ta_scroll Document t)) ps) =
        ta_calls (NgbTypeahead_ngAfterViewChecked pos (ta_scroll Document t)) @
          replicate (length ps)
            (Ta_positionElements (ta_elementRef t) (ref_location w) ''bottom-left'' True))"
proof (intro conjI impI; (elim conjE)?)
  assume d: "d = dp_run sv (NgbInputDatepicker_new el) evs" and c: "dp_cRef d = Some c"
  have inv: "dp_inv d" unfolding d by (rule dp_run_inv)
  note one = dp_oneshot[OF inv c] dp_scroll_frame[OF inv c]
  have s2: "dp_cRef (dp_onStable (dp_scroll Document d)) = Some c"
    "dp_elRef (dp_onStable (dp_scroll Document d)) = dp_elRef d"
    using one by (simp_all add: dp_tick_fields)
  show "dp_ignoreUpdatePosition (dp_scroll Document d)" by (rule one(1))
  show "dp_calls (dp_onStable (dp_scroll Document d)) = dp_calls (dp_scroll Document d)"
    using one by simp
  show "\<not> dp_ignoreUpdatePosition (dp_onStable (dp_scroll Document d))" by (rule one(4))
  show "dp_calls ((dp_onStable ^^ n) (dp_onStable (dp_scroll Document d))) =
          dp_calls (dp_onStable (dp_scroll Document d)) @
            replicate n (Dp_positionElements (dp_elRef d) c ''bottom-left'' True)"
    using dp_ticks[OF s2(1) one(4), of n] s2(2) by simp
next
  assume p: "p = po_run lt (NgbPopover_new pl tr el') evs'" and r: "po_windowRef p = Some r"
  have inv: "po_inv p" unfolding p by (rule po_run_inv)
  note one = po_oneshot[OF inv r] po_scroll_frame[OF inv r]
  have s2: "po_windowRef (NgbPopover_ngAfterViewChecked (po_scroll Document p)) = Some r"
    "po_elementRef (NgbPopover_ngAfterViewChecked (po_scroll Document p)) = po_elementRef p"
    "po_placement (NgbPopover_ngAfterViewChecked (po_scroll Document p)) = po_placement p"
    using one by (simp_all add: po_tick_fields)
  show "po_ignoreUpdatePosition (po_scroll Document p)" by (rule one(1))
  show "po_calls (NgbPopover_ngAfterViewChecked (po_scroll Document p)) = po_calls (po_scroll Document p)"
    using one by simp
  show "\<not> po_ignoreUpdatePosition (NgbPopover_ngAfterViewChecked (po_scroll Document p))"
    by (rule one(4))
  show "po_calls ((NgbPopover_ngAfterViewChecked ^^ n) (NgbPopover_ngAfterViewChecked (po_scroll Document p))) =
          po_calls (NgbPopover_ngAfterViewChecked (po_scroll Document p)) @
            replicate n (Po_positionElements (po_elementRef p) (ref_location r) (po_placement p) True)"
    using po_ticks[OF s2(1) one(4), of n] s2(2,3) by simp
next
  assume run: "ta_run u (NgbTypeahead_new el'') evs'' = Inr t" and w: "ta_windowRef t = Some w"
  have inv: "ta_inv t" using run by (rule ta_run_inv)
  note one = ta_oneshot[OF inv w]
  have s2: "ta_windowRef (NgbTypeahead_ngAfterViewChecked pos (ta_scroll Document t)) = Some w"
    "ta_elementRef (NgbTypeahead_ngAfterViewChecked pos (ta_scroll Document t)) = ta_elementRef t"
    "\<not> ta_ignoreUpdatePosition (NgbTypeahead_ngAfterViewChecked pos (ta_scroll Document t))"
    using one by (simp_all add: ta_tick_fields)
  show "ta_ignoreUpdatePosition (ta_scroll Document t)" by (rule one(1))
  show "ta_calls (NgbTypeahead_ngAfterViewChecked pos (ta_scroll Document t)) = ta_calls (ta_scroll Document t)"
    using one by (simp add: ta_tick_calls)
  show "\<not> ta_ignoreUpdatePosition (NgbTypeahead_ngAfterViewChecked pos (ta_scroll Document t))"
    by (rule s2(3))
  show "ta_calls (foldl (\<lambda>x q. NgbTypeahead_ngAfterViewChecked q x)
                  (NgbTypeahead_ngAfterViewChecked pos (ta_scroll Document t)) ps) =
        ta_calls (NgbTypeahead_ngAfterViewChecked pos (ta_scroll Document t)) @
          replicate (length ps)
            (Ta_positionElements (ta_elementRef t) (ref_location w) ''bottom-left'' True)"
    using ta_ticks[OF s2(1) s2(3), of ps] s2(2) by simp
qed

theorem C2_witness:
  "dp_cRef example_datepicker = Some 0 \<and>
   dp_ignoreUpdatePosition (dp_scroll Document example_datepicker) \<and>
   dp_calls (dp_onStable (dp_scroll Document example_datepicker)) =
     dp_calls (dp_scroll Document example_datepicker) \<and>
   \<not> dp_ignoreUpdatePosition (dp_onStable (dp_scroll Document example_datepicker)) \<and>
   dp_calls ((dp_onStable ^^ 2) (dp_onStable (dp_scroll Document example_datepicker))) =
     dp_calls (dp_onStable (dp_scroll Document example_datepicker)) @
       replicate 2 (Dp_positionElements 1 0 ''bottom-left'' True) \<and>
   po_windowRef example_popover =
     Some \<lparr>ref_location = 0, ref_instance = \<lparr>pw_placement = Top, pw_title = None\<rparr>\<rparr> \<and>
   po_ignoreUpdatePosition (po_scroll Document example_popover) \<and>
   po_calls (NgbPopover_ngAfterViewChecked (po_scroll Document example_popover)) =
     po_calls (po_scroll Document example_popover) \<and>
   po_calls ((NgbPopover_ngAfterViewChecked ^^ 2)
               (NgbPopover_ngAfterViewChecked (po_scroll Document example_popover))) =
     po_calls (NgbPopover_ngAfterViewChecked (po_scroll Document example_popover)) @
       replicate 2 (Po_positionElements 2 0 Top True) \<and>
   ta_ignoreUpdatePosition (ta_scroll Document example_typeahead) \<and>
   ta_calls (NgbTypeahead_ngAfterViewChecked (30, 4) (ta_scroll Document example_typeahead)) =
     ta_calls (ta_scroll Document example_typeahead) \<and>
   ta_calls (foldl (\<lambda>x q. NgbTypeahead_ngAfterViewChecked q x)
               (NgbTypeahead_ngAfterViewChecked (30, 4) (ta_scroll Document example_typeahead))
               [(30, 4), (31, 4)]) =
     ta_calls (NgbTypeahead_ngAfterViewChecked (30, 4) (ta_scroll Document example_typeahead)) @
       replicate (length [(30, 4), (31, 4 :: int)]) (Ta_positionElements 3 0 ''bottom-left'' True)"
proof -
  note inst = C2_scroll_suppression_is_one_shot
    [where d = example_datepicker and sv = example_services and el = 1
       and evs = "[Dp_registerOnChange 5, Dp_open]" and c = 0 and n = 2
       and p = example_popover and lt = example_triggers and pl = Top and tr = "''click''"
       and el' = 2 and evs' = "[Po_ngOnInit, Po_host ''click'']"
       and r = "\<lparr>ref_location = 0, ref_instance = \<lparr>pw_placement = Top, pw_title = None\<rparr>\<rparr>"
       and u = example_util and el'' = 3
       and evs'' = "[Ta_host_input ''a'', Ta_results_event (Some [10, 20, 30])]"
       and t = example_typeahead
       and w = "\<lparr>ref_location = 0,
                 ref_instance = \<lparr>activeIdx = Num 0, focusFirst = True, results = [10, 20, 30],
                                  term_tw = ''a'', formatter = None, resultTemplate = None,
                                  selectEvent = [], scrollTop = 0\<rparr>\<rparr>"
       and pos = "(30, 4)" and ps = "[(30, 4), (31, 4)]"]
  note dp = inst[THEN conjunct1, THEN mp,
              OF conjI[OF example_datepicker_def example_datepicker_state(1)]]
  note po = inst[THEN conjunct2, THEN conjunct1, THEN mp,
              OF conjI[OF example_popover_def example_popover_state(1)]]
  note ta = inst[THEN conjunct2, THEN conjunct2, THEN mp,
              OF conjI[OF example_typeahead_run example_typeahead_state(1)]]
  from dp po ta show ?thesis
    by (simp add: example_datepicker_state example_popover_state example_typeahead_state)
qed

text \<open>
  C3 (as claimed: a scroll event tears an open panel down). The scroll listener of all
  three widgets only sets \<open>_ignoreUpdatePosition\<close>; none of them closes the panel. After
  opening each panel and handling a scroll event (on the document, or on an element), the
  panel reference is still present.
\<close>

theorem C3_counterexample:
  "dp_cRef (dp_run example_services (NgbInputDatepicker_new 1) [Dp_open, Dp_scroll_event Document]) = Some 0 \<and>
   dp_cRef (dp_run example_services (NgbInputDatepicker_new 1) [Dp_open, Dp_scroll_event (Element 9)]) = Some 0 \<and>
   po_windowRef (po_run example_triggers (NgbPopover_new Top ''click'' 2)
                   [Po_ngOnInit, Po_open, Po_scroll_event Document]) \<noteq> None \<and>
   ta_windowRef (ta_scroll Document example_typeahead) \<noteq> None"
  by (simp add: dp_run_def po_run_def dp_scroll_eq po_scroll_eq ta_scroll_eq
        example_typeahead_state NgbInputDatepicker_new_def NgbInputDatepicker_open_def isOpen_def
        alloc_def addEventListener_def dp_applyPopupStyling_def dp_applyDatepickerInputs_def
        dp_log_def NgbPopover_new_def NgbPopover_ngOnInit_def NgbPopover_open_def Let_def)

text \<open>
  C3 (amended). A scroll event never changes the panel reference: an open panel stays
  open, a closed one stays closed. All a scroll event does is set the one-shot flag
  \<open>_ignoreUpdatePosition\<close>, and only when its target is the document and a scroll
  listener of the widget is registered.
\<close>

theorem C3_scroll_keeps_the_panel:
  "dp_scroll tgt d =
     (if scroll_listeners d \<noteq> [] \<and> tgt = Document then d\<lparr>dp_ignoreUpdatePosition := True\<rparr> else d) \<and>
   dp_cRef (dp_scroll tgt d) = dp_cRef d \<and>
   po_scroll tgt p =
     (if scroll_listeners p \<noteq> [] \<and> tgt = Document then p\<lparr>po_ignoreUpdatePosition := True\<rparr> else p) \<and>
   po_windowRef (po_scroll tgt p) = po_windowRef p \<and>
   ta_scroll tgt t =
     (if scroll_listeners t \<noteq> [] \<and> tgt = Document then t\<lparr>ta_ignoreUpdatePosition := True\<rparr> else t) \<and>
   ta_windowRef (ta_scroll tgt t) = ta_windowRef t"
  using dp_scroll_eq[of tgt d] po_scroll_eq[of tgt p] ta_scroll_eq[of tgt t]
  by (simp add: dp_scroll_keeps po_scroll_keeps ta_scroll_keeps)

text \<open>
  C4 (as claimed: Escape closes the panel of all three widgets). The popover has no
  handler for the Escape key: the only events it reacts to are those its trigger string
  registers. A popover with \<open>triggers = 'click'\<close>, opened by a click, is still open after
  the key events of an Escape key press.
\<close>

theorem C4_counterexample:
  "po_windowRef (po_run example_triggers (NgbPopover_new Top ''click'' 2)
                   [Po_ngOnInit, Po_host ''click'', Po_host ''keydown'', Po_host ''keydown.esc'',
                    Po_host ''keyup'', Po_host ''keyup.esc'']) \<noteq> None"
  by (simp add: po_run_def NgbPopover_new_def NgbPopover_ngOnInit_def example_triggers_def
        po_host_event_def NgbPopover_toggle_def NgbPopover_open_def alloc_def
        addEventListener_def Let_def)

text \<open>
  C4 (amended). Escape closes the panel of the datepicker input (host binding
  \<open>(keyup.esc)\<close> calls \<open>close()\<close>) and of the typeahead (\<open>handleKeyDown\<close> with key code
  27 calls \<open>closePopup()\<close>): after the event the panel reference is absent. The popover
  has no Escape handling: a host event that no registered trigger names leaves the
  popover, and so its open panel, exactly as it was.
\<close>

theorem C4_escape_closes_datepicker_and_typeahead:
  "dp_cRef (dp_step sv d Dp_host_keyup_esc) = None \<and>
   (\<exists>t'. ta_step u t (Ta_host_keydown 27 lay) = Inr t' \<and> ta_windowRef t' = None) \<and>
   (name \<notin> fst ` set (po_listeners p) \<longrightarrow> po_step lt p (Po_host name) = p)"
proof -
  have "ta_windowRef (case ta_windowRef t of None \<Rightarrow> t
                      | Some r \<Rightarrow> closePopup (ta_log [Ta_preventDefault] t)) = None"
    using ta_close_frame[of "ta_log [Ta_preventDefault] t"] by (simp split: option.splits)
  then show ?thesis
    by (simp add: dp_close_closes ta_esc po_host_event_def po_host_unbound)
qed

theorem C4_witness:
  "dp_cRef example_datepicker = Some 0 \<and>
   dp_cRef (dp_step example_services example_datepicker Dp_host_keyup_esc) = None \<and>
   ta_windowRef example_typeahead \<noteq> None \<and>
   (\<exists>t'. ta_step example_util example_typeahead (Ta_host_keydown 27 example_layout) = Inr t' \<and>
         ta_windowRef t' = None) \<and>
   ''keyup.esc'' \<notin> fst ` set (po_listeners example_popover) \<and>
   po_windowRef example_popover \<noteq> None \<and>
   po_step example_triggers example_popover (Po_host ''keyup.esc'') = example_popover"
  using C4_escape_closes_datepicker_and_typeahead
    [of example_services example_datepicker example_util example_typeahead example_layout
        "''keyup.esc''" example_popover example_triggers]
  by (simp add: example_datepicker_state example_popover_state example_typeahead_state)

text \<open>
  C5. Positioning on ticks. A tick (\<open>onStable\<close> for the datepicker input,
  \<open>ngAfterViewChecked\<close> for popover and typeahead) calls \<open>positionElements\<close> once, with
  the anchor element and the panel element, when the panel is open and
  \<open>_ignoreUpdatePosition\<close> is not set; it makes no call when the flag is set, and none
  when the panel is closed. Nothing else is added to the calls.
\<close>

theorem C5_tick_positions_open_panel:
  "dp_calls (dp_onStable d) =
     dp_calls d @
       (case dp_cRef d of
          Some c \<Rightarrow> if dp_ignoreUpdatePosition d then []
                    else [Dp_positionElements (dp_elRef d) c ''bottom-left'' True]
        | None \<Rightarrow> []) \<and>
   po_calls (NgbPopover_ngAfterViewChecked p) =
     po_calls p @
       (case po_windowRef p of
          Some r \<Rightarrow> if po_ignoreUpdatePosition p then []
                    else [Po_positionElements (po_elementRef p) (ref_location r) (po_placement p) True]
        | None \<Rightarrow> []) \<and>
   ta_calls (NgbTypeahead_ngAfterViewChecked pos t) =
     ta_calls t @
       (case ta_windowRef t of
          Some r \<Rightarrow> if ta_ignoreUpdatePosition t then []
                    else [Ta_positionElements (ta_elementRef t) (ref_location r) ''bottom-left'' True]
        | None \<Rightarrow> [])"
  by (simp only: dp_tick_calls po_tick_calls ta_tick_calls simp_thms)

theorem C5_witness:
  "dp_calls (dp_onStable example_datepicker) =
     dp_calls example_datepicker @ [Dp_positionElements 1 0 ''bottom-left'' True] \<and>
   dp_calls (dp_onStable (NgbInputDatepicker_close example_datepicker)) =
     dp_calls (NgbInputDatepicker_close example_datepicker) \<and>
   po_calls (NgbPopover_ngAfterViewChecked example_popover) =
     po_calls example_popover @ [Po_positionElements 2 0 Top True] \<and>
   po_calls (NgbPopover_ngAfterViewChecked (po_scroll Document example_popover)) =
     po_calls (po_scroll Document example_popover) \<and>
   ta_calls (NgbTypeahead_ngAfterViewChecked (30, 4) example_typeahead) =
     ta_calls example_typeahead @ [Ta_positionElements 3 0 ''bottom-left'' True]"
  using C5_tick_positions_open_panel[of example_datepicker example_popover "(30, 4)" example_typeahead]
    C5_tick_positions_open_panel[of "NgbInputDatepicker_close example_datepicker"
      "po_scroll Document example_popover" "(30, 4)" example_typeahead]
  by (simp add: example_datepicker_state example_popover_state example_typeahead_state
        dp_close_closes po_scroll_eq)

text \<open>
  C6. The close operation (\<open>close()\<close>, \<open>closePopup()\<close>) leaves the panel reference
  absent and does not touch the stored date model, the registered change and touched
  callbacks, or any configuration input of the widget.
\<close>

theorem C6_close_frame:
  "dp_cRef (NgbInputDatepicker_close d) = None \<and>
   dp_model (NgbInputDatepicker_close d) = dp_model d \<and>
   dp_onChange (NgbInputDatepicker_close d) = dp_onChange d \<and>
   dp_onTouched (NgbInputDatepicker_close d) = dp_onTouched d \<and>
   dp_inputs (NgbInputDatepicker_close d) = dp_inputs d \<and>
   dp_startDate (NgbInputDatepicker_close d) = dp_startDate d \<and>
   po_windowRef (NgbPopover_close p) = None \<and>
   ngbPopover (NgbPopover_close p) = ngbPopover p \<and>
   po_title (NgbPopover_close p) = po_title p \<and>
   po_placement (NgbPopover_close p) = po_placement p \<and>
   po_triggers (NgbPopover_close p) = po_triggers p \<and>
   ta_windowRef (closePopup t) = None \<and>
   ta_inputFormatter (closePopup t) = ta_inputFormatter t \<and>
   ngbTypeahead (closePopup t) = ngbTypeahead t \<and>
   ta_resultFormatter (closePopup t) = ta_resultFormatter t \<and>
   ta_resultTemplate (closePopup t) = ta_resultTemplate t \<and>
   ta_onChangeNoEmit (closePopup t) = ta_onChangeNoEmit t \<and>
   ta_onTouched (closePopup t) = ta_onTouched t"
proof -
  have "ngbTypeahead (closePopup t) = ngbTypeahead t"
    by (simp add: closePopup_def ta_log_def removeEventListener_def Let_def split: option.splits)
  then show ?thesis
    using dp_close_frame[of d] po_close_frame[of p] ta_close_frame[of t] by simp
qed

theorem C6_witness:
  "dp_cRef example_datepicker = Some 0 \<and>
   dp_cRef (NgbInputDatepicker_close example_datepicker) = None \<and>
   dp_onChange (NgbInputDatepicker_close example_datepicker) = Registered 5 \<and>
   po_windowRef example_popover \<noteq> None \<and>
   po_windowRef (NgbPopover_close example_popover) = None \<and>
   po_placement (NgbPopover_close example_popover) = Top \<and>
   ta_windowRef example_typeahead \<noteq> None \<and>
   ta_windowRef (closePopup example_typeahead) = None"
  using C6_close_frame[of example_datepicker example_popover example_typeahead]
  by (simp add: example_datepicker_state example_popover_state example_typeahead_state)

text \<open>
  C7. \<open>manualDateChange\<close> has no error branch. For every input string whose parse is
  not turned into a valid date (\<open>toValidDate(parse(value), null)\<close> is \<open>null\<close>), the
  model becomes \<open>null\<close>, the registered change callback is called with \<open>null\<close>, and the
  input element's value becomes the formatter's text for \<open>null\<close>; when the panel is
  open it is also handed \<open>null\<close> and the touched callback is called. The function is
  total: with a parser, formatter and validity service that return, it returns.
\<close>

theorem C7_manualDateChange_unparseable:
  "toValidDate sv (pf_parse sv v) None = None \<Longrightarrow>
   dp_model (manualDateChange sv v d) = None \<and>
   dp_el_value (manualDateChange sv v d) = pf_format sv None \<and>
   dp_calls (manualDateChange sv v d) =
     dp_calls d @ [Dp_onChange (dp_onChange d) None] @
       (case dp_cRef d of
          Some c \<Rightarrow> [Dp_instance_writeValue c None, Dp_onTouched (dp_onTouched d)]
        | None \<Rightarrow> [])"
  using dp_manual_null[of sv v d] by simp

theorem C7_witness:
  "toValidDate example_services (pf_parse example_services ''2016-13-03'') None = None \<and>
   toValidDate example_services (pf_parse example_services ''tomorrow'') None = None \<and>
   dp_model (manualDateChange example_services ''2016-13-03'' example_datepicker) = None \<and>
   dp_el_value (manualDateChange example_services ''2016-13-03'' example_datepicker) = [] \<and>
   dp_calls (manualDateChange example_services ''2016-13-03'' example_datepicker) =
     dp_calls example_datepicker @
       [Dp_onChange (Registered 5) None, Dp_instance_writeValue 0 None, Dp_onTouched Noop] \<and>
   dp_calls (manualDateChange example_services ''tomorrow'' (NgbInputDatepicker_new 1)) =
     [Dp_onChange Noop None]"
proof -
  have h1: "toValidDate example_services (pf_parse example_services ''2016-13-03'') None = None"
    and h2: "toValidDate example_services (pf_parse example_services ''tomorrow'') None = None"
    by (simp_all add: example_services_def)
  from C7_manualDateChange_unparseable[OF h1, of example_datepicker]
       C7_manualDateChange_unparseable[OF h2, of "NgbInputDatepicker_new 1"] h1 h2
  show ?thesis
    by (simp add: example_datepicker_state example_services_def NgbInputDatepicker_new_def)
qed

text \<open>
  C8. \<open>toggle()\<close> of the datepicker input and of the popover alternates between open
  and closed: it closes an open panel and opens a closed one, so two calls in a row give
  back the open or closed state the widget started from.
\<close>

theorem C8_toggle_alternates:
  "isOpen (NgbInputDatepicker_toggle d) = (\<not> isOpen d) \<and>
   isOpen (NgbInputDatepicker_toggle (NgbInputDatepicker_toggle d)) = isOpen d \<and>
   (po_windowRef (NgbPopover_toggle p) = None) = (po_windowRef p \<noteq> None) \<and>
   (po_windowRef (NgbPopover_toggle (NgbPopover_toggle p)) = None) = (po_windowRef p = None)"
  by (simp add: dp_toggle_flips po_toggle_flips)

theorem C8_witness:
  "isOpen example_datepicker \<and>
   \<not> isOpen (NgbInputDatepicker_toggle example_datepicker) \<and>
   isOpen (NgbInputDatepicker_toggle (NgbInputDatepicker_toggle example_datepicker)) \<and>
   po_windowRef (NgbPopover_new Top ''click'' 2) = None \<and>
   po_windowRef (NgbPopover_toggle (NgbPopover_new Top ''click'' 2)) \<noteq> None \<and>
   po_windowRef (NgbPopover_toggle (NgbPopover_toggle (NgbPopover_new Top ''click'' 2))) = None"
  using C8_toggle_alternates[of example_datepicker "NgbPopover_new Top ''click'' 2"]
  by (simp add: isOpen_def example_datepicker_state NgbPopover_new_def)

text \<open>
  C9. For a typeahead window with a non-empty list of results, after \<open>ngOnInit\<close> any
  sequence of \<open>next()\<close> and \<open>prev()\<close> calls runs without an exception and leaves
  \<open>activeIdx\<close> at \<open>-1\<close> or at an index of the list; with \<open>focusFirst\<close> it is never
  \<open>-1\<close>. With \<open>focusFirst\<close>, \<open>next()\<close> at the last index goes to \<open>0\<close> and
  \<open>prev()\<close> at \<open>0\<close> goes to the last index.
\<close>

theorem C9_activeIdx_in_range:
  assumes "results w \<noteq> []"
  shows "(\<exists>w' i. run_tw (ngOnInit_tw w) ops = Inr w' \<and> activeIdx w' = Num i \<and>
            (i = - 1 \<or> (0 \<le> i \<and> i \<le> int (length (results w)) - 1)) \<and>
            (focusFirst w \<longrightarrow> i \<noteq> - 1)) \<and>
         (focusFirst w \<and> activeIdx w = Num (int (length (results w)) - 1) \<longrightarrow>
            (\<exists>w'. next_tw lay w = Inr w' \<and> activeIdx w' = Num 0)) \<and>
         (focusFirst w \<and> activeIdx w = Num 0 \<longrightarrow>
            (\<exists>w'. prev_tw lay w = Inr w' \<and> activeIdx w' = Num (int (length (results w)) - 1)))"
proof (intro conjI)
  have r: "results (ngOnInit_tw w) \<noteq> []" "focusFirst (ngOnInit_tw w) = focusFirst w"
    "results (ngOnInit_tw w) = results w"
    using assms by (simp_all add: ngOnInit_tw_def)
  from run_tw_ok[OF r(1) ngOnInit_tw_ok[OF assms], of ops] r
  obtain w' where w': "run_tw (ngOnInit_tw w) ops = Inr w'" "idx_ok w'" "results w' = results w"
    "focusFirst w' = focusFirst w" by auto
  then obtain i where "activeIdx w' = Num i" by (cases "activeIdx w'") (auto simp: idx_ok_def)
  with w' show "\<exists>w' i. run_tw (ngOnInit_tw w) ops = Inr w' \<and> activeIdx w' = Num i \<and>
            (i = - 1 \<or> (0 \<le> i \<and> i \<le> int (length (results w)) - 1)) \<and>
            (focusFirst w \<longrightarrow> i \<noteq> - 1)"
    by (auto simp: idx_ok_def)
next
  show "focusFirst w \<and> activeIdx w = Num (int (length (results w)) - 1) \<longrightarrow>
            (\<exists>w'. next_tw lay w = Inr w' \<and> activeIdx w' = Num 0)"
    using assms by (auto simp: next_tw_def updateView_def Let_def)
next
  show "focusFirst w \<and> activeIdx w = Num 0 \<longrightarrow>
            (\<exists>w'. prev_tw lay w = Inr w' \<and> activeIdx w' = Num (int (length (results w)) - 1))"
    using assms by (auto simp: prev_tw_def updateView_def Let_def)
qed

theorem C9_witness:
  "results example_window \<noteq> [] \<and> focusFirst example_window \<and>
   (\<exists>w' i. run_tw (ngOnInit_tw example_window)
              [(Next, example_layout), (Next, example_layout), (Next, example_layout),
               (Prev, example_layout)] = Inr w' \<and>
           activeIdx w' = Num i \<and> (i = - 1 \<or> (0 \<le> i \<and> i \<le> 2)) \<and> i \<noteq> - 1) \<and>
   activeIdx (example_window\<lparr>activeIdx := Num 2\<rparr>) = Num 2 \<and>
   (\<exists>w'. next_tw example_layout (example_window\<lparr>activeIdx := Num 2\<rparr>) = Inr w' \<and>
         activeIdx w' = Num 0) \<and>
   activeIdx example_window = Num 0 \<and>
   (\<exists>w'. prev_tw example_layout example_window = Inr w' \<and> activeIdx w' = Num 2)"
proof -
  have h: "results example_window \<noteq> []" "results (example_window\<lparr>activeIdx := Num 2\<rparr>) \<noteq> []"
    by (simp_all add: example_window_def NgbTypeaheadWindow_new_def)
  from C9_activeIdx_in_range[OF h(1), of "[(Next, example_layout), (Next, example_layout),
          (Next, example_layout), (Prev, example_layout)]" example_layout]
       C9_activeIdx_in_range[OF h(2), of "[]" example_layout]
  show ?thesis
    by (simp add: example_window_def NgbTypeaheadWindow_new_def)
qed

text \<open>
  C10. Closing a widget whose panel is closed is safe and changes nothing. In every state
  a widget can reach, and in particular in the state the constructor leaves (where
  \<open>_scrollListener\<close> is still \<open>undefined\<close>), \<open>close()\<close> of the datepicker input with no
  panel open returns the state unchanged; \<open>close()\<close> of the popover and \<open>closePopup()\<close>
  of the typeahead leave every field of the directive and the document's listeners
  unchanged and only repeat the call to the popup service's \<open>close()\<close> (that service is
  not among the sources). A second close in a row does what the first did to the widget:
  nothing more changes, apart from that repeated call.
\<close>

theorem C10_close_is_idempotent:
  "(d = dp_run sv (NgbInputDatepicker_new el) evs \<longrightarrow>
      (dp_cRef d = None \<longrightarrow> NgbInputDatepicker_close d = d) \<and>
      NgbInputDatepicker_close (NgbInputDatepicker_close d) = NgbInputDatepicker_close d) \<and>
   (p = po_run lt (NgbPopover_new pl tr el') evs' \<longrightarrow>
      (po_windowRef p = None \<longrightarrow>
         NgbPopover_close p = p\<lparr>po_calls := po_calls p @ [Po_popupService_close]\<rparr>) \<and>
      NgbPopover_close (NgbPopover_close p) =
        (NgbPopover_close p)\<lparr>po_calls := po_calls (NgbPopover_close p) @ [Po_popupService_close]\<rparr>) \<and>
   (\<exists>t. ta_run u (NgbTypeahead_new el'') evs'' = Inr t \<and>
      (ta_windowRef t = None \<longrightarrow>
         closePopup t = t\<lparr>ta_calls := ta_calls t @ [Ta_popupService_close]\<rparr>) \<and>
      closePopup (closePopup t) =
        (closePopup t)\<lparr>ta_calls := ta_calls (closePopup t) @ [Ta_popupService_close]\<rparr>)"
proof (intro conjI impI)
  assume d: "d = dp_run sv (NgbInputDatepicker_new el) evs"
  assume "dp_cRef d = None"
  then show "NgbInputDatepicker_close d = d"
    using dp_run_inv[of sv el evs] d by (simp add: dp_close_closed)
next
  show "NgbInputDatepicker_close (NgbInputDatepicker_close d) = NgbInputDatepicker_close d"
    by (rule dp_close_twice)
next
  assume p: "p = po_run lt (NgbPopover_new pl tr el') evs'"
  assume "po_windowRef p = None"
  then show "NgbPopover_close p = p\<lparr>po_calls := po_calls p @ [Po_popupService_close]\<rparr>"
    using po_run_inv[of lt pl tr el' evs'] p by (simp add: po_close_closed)
next
  show "NgbPopover_close (NgbPopover_close p) =
        (NgbPopover_close p)\<lparr>po_calls := po_calls (NgbPopover_close p) @ [Po_popupService_close]\<rparr>"
    by (rule po_close_twice)
next
  from ta_run_total[of u el'' evs''] obtain t where
    t: "ta_run u (NgbTypeahead_new el'') evs'' = Inr t" "ta_inv t" by blast
  show "\<exists>t. ta_run u (NgbTypeahead_new el'') evs'' = Inr t \<and>
      (ta_windowRef t = None \<longrightarrow>
         closePopup t = t\<lparr>ta_calls := ta_calls t @ [Ta_popupService_close]\<rparr>) \<and>
      closePopup (closePopup t) =
        (closePopup t)\<lparr>ta_calls := ta_calls (closePopup t) @ [Ta_popupService_close]\<rparr>"
  proof (intro exI[of _ t] conjI impI)
    show "ta_run u (NgbTypeahead_new el'') evs'' = Inr t" by (rule t(1))
    show "closePopup t = t\<lparr>ta_calls := ta_calls t @ [Ta_popupService_close]\<rparr>"
      if "ta_windowRef t = None" using ta_close_closed[OF t(2) that] .
    show "closePopup (closePopup t) =
        (closePopup t)\<lparr>ta_calls := ta_calls (closePopup t) @ [Ta_popupService_close]\<rparr>"
      by (rule ta_close_twice)
  qed
qed

theorem C10_witness:
  "dp_cRef (NgbInputDatepicker_new 1) = None \<and>
   dp_scrollListener (NgbInputDatepicker_new 1) = None \<and>
   NgbInputDatepicker_close (NgbInputDatepicker_new 1) = NgbInputDatepicker_new 1 \<and>
   NgbInputDatepicker_close (NgbInputDatepicker_close example_datepicker) =
     NgbInputDatepicker_close example_datepicker \<and>
   po_windowRef (NgbPopover_new Top ''click'' 2) = None \<and>
   NgbPopover_close (NgbPopover_new Top ''click'' 2) =
     (NgbPopover_new Top ''click'' 2)\<lparr>po_calls := [Po_popupService_close]\<rparr> \<and>
   ta_windowRef (NgbTypeahead_new 3 :: nat typeahead) = None \<and>
   closePopup (NgbTypeahead_new 3 :: nat typeahead) =
     (NgbTypeahead_new 3)\<lparr>ta_calls := [Ta_popupService_close]\<rparr>"
proof -
  have e: "NgbInputDatepicker_new 1 = dp_run example_services (NgbInputDatepicker_new 1) []"
    "NgbPopover_new Top ''click'' 2 = po_run example_triggers (NgbPopover_new Top ''click'' 2) []"
    by (simp_all add: dp_run_def po_run_def)
  have n: "dp_cRef (NgbInputDatepicker_new 1) = None"
    "dp_scrollListener (NgbInputDatepicker_new 1) = None"
    "po_windowRef (NgbPopover_new Top ''click'' 2) = None"
    "po_calls (NgbPopover_new Top ''click'' 2) = []"
    "ta_windowRef (NgbTypeahead_new 3 :: nat typeahead) = None"
    "ta_calls (NgbTypeahead_new 3 :: nat typeahead) = []"
    by (simp_all add: NgbInputDatepicker_new_def NgbPopover_new_def NgbTypeahead_new_def)
  note a = C10_close_is_idempotent
    [where d = "NgbInputDatepicker_new 1" and sv = example_services and el = 1 and evs = "[]"
       and p = "NgbPopover_new Top ''click'' 2" and lt = example_triggers and pl = Top
       and tr = "''click''" and el' = 2 and evs' = "[]"
       and u = example_util and el'' = 3 and evs'' = "[]"]
  note b = C10_close_is_idempotent
    [where d = example_datepicker and sv = example_services and el = 1
       and evs = "[Dp_registerOnChange 5, Dp_open]"
       and p = "NgbPopover_new Top ''click'' 2" and lt = example_triggers and pl = Top
       and tr = "''click''" and el' = 2 and evs' = "[]"
       and u = example_util and el'' = 3 and evs'' = "[]"]
  have dp1: "NgbInputDatepicker_close (NgbInputDatepicker_new 1) = NgbInputDatepicker_new 1"
    using a[THEN conjunct1, THEN mp, OF e(1), THEN conjunct1, THEN mp, OF n(1)] .
  have dp2: "NgbInputDatepicker_close (NgbInputDatepicker_close example_datepicker) =
     NgbInputDatepicker_close example_datepicker"
    using b[THEN conjunct1, THEN mp, OF example_datepicker_def, THEN conjunct2] .
  have po1: "NgbPopover_close (NgbPopover_new Top ''click'' 2) =
     (NgbPopover_new Top ''click'' 2)\<lparr>po_calls := [Po_popupService_close]\<rparr>"
    using a[THEN conjunct2, THEN conjunct1, THEN mp, OF e(2), THEN conjunct1, THEN mp, OF n(3)]
    by (simp only: n(4) append_Nil)
  have "\<exists>t. (Inr (NgbTypeahead_new 3) :: js_error + nat typeahead) = Inr t \<and>
      (ta_windowRef t = None \<longrightarrow>
         closePopup t = t\<lparr>ta_calls := ta_calls t @ [Ta_popupService_close]\<rparr>) \<and>
      closePopup (closePopup t) =
        (closePopup t)\<lparr>ta_calls := ta_calls (closePopup t) @ [Ta_popupService_close]\<rparr>"
    using a[THEN conjunct2, THEN conjunct2] unfolding ta_run.simps .
  then obtain t where t: "(Inr (NgbTypeahead_new 3) :: js_error + nat typeahead) = Inr t"
    "ta_windowRef t = None \<longrightarrow>
       closePopup t = t\<lparr>ta_calls := ta_calls t @ [Ta_popupService_close]\<rparr>"
    by (elim exE conjE)
  have t': "t = NgbTypeahead_new 3" using t(1) by (simp only: sum.inject)
  have "closePopup (NgbTypeahead_new 3 :: nat typeahead) =
     (NgbTypeahead_new 3)\<lparr>ta_calls := ta_calls (NgbTypeahead_new 3 :: nat typeahead) @ [Ta_popupService_close]\<rparr>"
    using t(2)[unfolded t', THEN mp, OF n(5)] .
  then have ta1: "closePopup (NgbTypeahead_new 3 :: nat typeahead) =
     (NgbTypeahead_new 3)\<lparr>ta_calls := [Ta_popupService_close]\<rparr>"
    by (simp only: n(6) append_Nil)
  from dp1 dp2 po1 ta1 n show ?thesis by (simp only: simp_thms)
qed

end
